theory Spec2Isabelle
  imports Main "HOL-Library.Word"
begin

section \<open>The sleep monitor firmware (Firmware/firmware.ino)\<close>

text \<open>
  The firmware runs \<open>setup()\<close> once per boot and ends each boot in deep sleep; the timer
  wake-up is a reset, so the next boot starts \<open>setup()\<close> again with every global variable
  back at its initialiser. What survives is the SPIFFS file \<open>/data_log.txt\<close> and the
  real-time clock.

  Everything the hardware and the libraries answer during one boot is collected in a
  record \<open>wake_env\<close>, one field per call site. The program state is passed explicitly;
  every externally visible action is appended to a trace, tagged with the step of the boot
  sequence that performed it.
\<close>

subsection \<open>Constants\<close>

definition I2C_SDA_PIN :: nat where "I2C_SDA_PIN = 21"
definition I2C_SCL_PIN :: nat where "I2C_SCL_PIN = 20"
definition VIBRATION_MOTOR_PIN :: nat where "VIBRATION_MOTOR_PIN = 3"

text \<open>\<open>const uint64_t SLEEP_INTERVAL = 20 * 1000000LL\<close>, in microseconds.\<close>
definition SLEEP_INTERVAL :: nat where "SLEEP_INTERVAL = 20 * 1000000"

definition MORNING_HOUR :: int where "MORNING_HOUR = 6"

text \<open>\<open>const int BUFFER_SIZE = 100\<close>, local to \<open>collectAndLogData\<close>.\<close>
definition BUFFER_SIZE :: nat where "BUFFER_SIZE = 100"

text \<open>The line terminator of the log file, \<open>'\n'\<close>.\<close>
definition nl :: char where "nl = CHR 0x0A"

subsection \<open>Data\<close>

text \<open>
  The fields of \<open>struct tm\<close> that the firmware reads. They are C \<open>int\<close>s that are only
  compared and printed, never computed with, so they are modelled as \<open>int\<close>.
\<close>
record tm =
  tm_hour :: int
  tm_min :: int
  tm_sec :: int

text \<open>
  A C \<open>float\<close> is carried as its 32-bit pattern: the firmware reads the temperature from
  the probe and hands it to \<open>printf\<close>, and does no arithmetic on it.
\<close>
type_synonym float32 = "32 word"

text \<open>
  What \<open>maxim_heart_rate_and_oxygen_saturation\<close> stores through its four out-pointers
  (\<open>int32_t\<close> estimates, \<open>int8_t\<close> validity flags).
\<close>
record estimate =
  spo2 :: int
  validSpO2 :: int
  heartRate :: int
  validHeartRate :: int

text \<open>
  \<open>SPIFFS.begin(true)\<close> mounts the file system; with \<open>formatOnFail = true\<close> a failed
  mount is followed by formatting and a second attempt, which succeeds on an empty file
  system or fails.
\<close>
datatype mount_result = Mounted | Formatted | Mount_failed

subsection \<open>Formatted output\<close>

text \<open>
  \<open>printf\<close> is variadic: an \<open>int\<close> argument travels as an \<open>int\<close>, a \<open>float\<close> is
  promoted to \<open>double\<close>. The conversions that occur in the firmware's format strings are
  \<open>%02d\<close> and \<open>%.2f\<close>.
\<close>
datatype vararg = VInt int | VDouble float32

datatype fmt_item = Lit string | Conv_02d | Conv_2f

text \<open>
  The library code the firmware calls but does not contain: the vendor estimator, and
  the rendering of a \<open>double\<close> by \<open>%.2f\<close>.
\<close>
record platform =
  maxim :: "nat list \<Rightarrow> nat \<Rightarrow> nat list \<Rightarrow> estimate"
  fmt_2f :: "float32 \<Rightarrow> string"

definition digit_char :: "nat \<Rightarrow> char" where
  "digit_char d = ''0123456789'' ! d"

fun dec_digits :: "nat \<Rightarrow> string" where
  "dec_digits n =
     (if n < 10 then [digit_char n] else dec_digits (n div 10) @ [digit_char (n mod 10)])"

declare dec_digits.simps [simp del]

text \<open>\<open>%02d\<close>: decimal, zero-padded to width 2, the sign counting towards the width.\<close>
definition fmt_02d :: "int \<Rightarrow> string" where
  "fmt_02d n =
     (if n < 0 then CHR ''-'' # dec_digits (nat (- n))
      else if n < 10 then CHR ''0'' # dec_digits (nat n)
      else dec_digits (nat n))"

text \<open>Whether an argument has the type its conversion expects.\<close>
fun conv_ok :: "fmt_item \<Rightarrow> vararg \<Rightarrow> bool" where
  "conv_ok Conv_02d (VInt n) = True"
| "conv_ok Conv_2f (VDouble d) = True"
| "conv_ok c a = False"

text \<open>The text of a conversion whose argument has the expected type.\<close>
fun conv_text :: "platform \<Rightarrow> fmt_item \<Rightarrow> vararg \<Rightarrow> string option" where
  "conv_text P Conv_02d (VInt n) = Some (fmt_02d n)"
| "conv_text P Conv_2f (VDouble d) = Some (fmt_2f P d)"
| "conv_text P c a = None"

text \<open>
  A call that pairs a conversion with an argument of another type is undefined in C.
  What \<open>printf\<close> implementations do is walk the format from left to right: the text
  before the first ill-typed conversion is already produced, the literal text of the
  format is copied as it stands, and from the first ill-typed conversion on every
  conversion reads its argument from the wrong place. What those conversions print is
  not a function of the arguments of the call: it is taken from the environment, which
  gives a text for the \<open>k\<close>-th such conversion of the call (\<open>ub k\<close>), and may give
  another one for the next call and in the next boot.
\<close>
fun vprintf_astray :: "(nat \<Rightarrow> string) \<Rightarrow> nat \<Rightarrow> fmt_item list \<Rightarrow> string" where
  "vprintf_astray ub k [] = []"
| "vprintf_astray ub k (Lit s # fs) = s @ vprintf_astray ub k fs"
| "vprintf_astray ub k (c # fs) = ub k @ vprintf_astray ub (Suc k) fs"

text \<open>The text \<open>printf\<close> produces for a format and its arguments.\<close>
fun vprintf :: "platform \<Rightarrow> (nat \<Rightarrow> string) \<Rightarrow> fmt_item list \<Rightarrow> vararg list \<Rightarrow> string" where
  "vprintf P ub [] as = []"
| "vprintf P ub (Lit s # fs) as = s @ vprintf P ub fs as"
| "vprintf P ub (c # fs) [] = vprintf_astray ub 0 (c # fs)"
| "vprintf P ub (c # fs) (a # as) =
     (case conv_text P c a of
        Some txt \<Rightarrow> txt @ vprintf P ub fs as
      | None \<Rightarrow> vprintf_astray ub 0 (c # fs))"

text \<open>Whether every conversion of a format meets an argument of its type.\<close>
fun printf_ok :: "fmt_item list \<Rightarrow> vararg list \<Rightarrow> bool" where
  "printf_ok [] as = True"
| "printf_ok (Lit s # fs) as = printf_ok fs as"
| "printf_ok (c # fs) [] = False"
| "printf_ok (c # fs) (a # as) = (conv_ok c a \<and> printf_ok fs as)"

text \<open>\<open>"Current time: %02d:%02d:%02d\n"\<close> (line 68).\<close>
definition current_time_format :: "fmt_item list" where
  "current_time_format =
     [Lit ''Current time: '', Conv_02d, Lit '':'', Conv_02d, Lit '':'', Conv_02d, Lit [nl]]"

text \<open>\<open>"%02d:%02d:%02d,%.2f,%.2f,%.2f\n"\<close> (line 182).\<close>
definition log_format :: "fmt_item list" where
  "log_format =
     [Conv_02d, Lit '':'', Conv_02d, Lit '':'', Conv_02d,
      Lit '','', Conv_2f, Lit '','', Conv_2f, Lit '','', Conv_2f, Lit [nl]]"

text \<open>\<open>"Logged: %02d:%02d:%02d, HR: %.2f, SpO2: %.2f, Temp: %.2f\n"\<close> (line 185).\<close>
definition logged_format :: "fmt_item list" where
  "logged_format =
     [Lit ''Logged: '', Conv_02d, Lit '':'', Conv_02d, Lit '':'', Conv_02d,
      Lit '', HR: '', Conv_2f, Lit '', SpO2: '', Conv_2f, Lit '', Temp: '', Conv_2f, Lit [nl]]"

definition time_args :: "tm \<Rightarrow> vararg list" where
  "time_args t = [VInt (tm_hour t), VInt (tm_min t), VInt (tm_sec t)]"

text \<open>
  The arguments of both \<open>printf\<close> calls of \<open>collectAndLogData\<close>:
  \<open>timeinfo.tm_hour, timeinfo.tm_min, timeinfo.tm_sec, heartRate, spo2, temperature\<close>,
  where \<open>heartRate\<close> and \<open>spo2\<close> are \<open>int32_t\<close> and \<open>temperature\<close> is a \<open>float\<close>.
\<close>
definition log_args :: "tm \<Rightarrow> int \<Rightarrow> int \<Rightarrow> float32 \<Rightarrow> vararg list" where
  "log_args t hr sp temp = time_args t @ [VInt hr, VInt sp, VDouble temp]"

subsection \<open>The log file\<close>

text \<open>
  \<open>Stream::readStringUntil(terminator)\<close>: the characters up to the terminator, which is
  consumed and not returned; at the end of the file, what was read so far. The second
  component is the unread rest of the file.
\<close>
fun readStringUntil :: "char \<Rightarrow> string \<Rightarrow> string \<times> string" where
  "readStringUntil t [] = ([], [])"
| "readStringUntil t (c # cs) =
     (if c = t then ([], cs)
      else (case readStringUntil t cs of (line, rest) \<Rightarrow> (c # line, rest)))"

lemma readStringUntil_shorter:
  "length (snd (readStringUntil t f)) \<le> length f - 1"
  by (induction f) (auto split: prod.splits)

lemma readStringUntil_rest:
  assumes "f \<noteq> []" and "(line, rest) = readStringUntil t f"
  shows "length rest < length f"
proof -
  have "length (snd (readStringUntil t f)) \<le> length f - 1"
    by (rule readStringUntil_shorter)
  moreover have "0 < length f" using assms(1) by simp
  ultimately have "length (snd (readStringUntil t f)) < length f" by linarith
  moreover have "rest = snd (readStringUntil t f)"
    using assms(2) by (metis snd_conv)
  ultimately show ?thesis by simp
qed

text \<open>
  The loop of \<open>sendData\<close> (lines 146-149):
  \<open>while (logFile.available()) { line = logFile.readStringUntil('\n'); ... }\<close>,
  returning the lines in the order they are read.
\<close>
function read_lines :: "string \<Rightarrow> string list" where
  "read_lines f =
     (if f = [] then []
      else (case readStringUntil nl f of (line, rest) \<Rightarrow> line # read_lines rest))"
  by pat_completeness auto
termination
  by (relation "measure length") (auto dest: readStringUntil_rest)

declare read_lines.simps [simp del]

text \<open>The bytes of the log file; a file that does not exist holds none.\<close>
fun store_bytes :: "string option \<Rightarrow> string" where
  "store_bytes None = []"
| "store_bytes (Some c) = c"

subsection \<open>The environment of one boot\<close>

text \<open>
  What the hardware and the libraries answer during one boot. Calls that the firmware
  makes at several places get one field per place, since nothing makes the answers agree.
\<close>
record wake_env =
  mount :: mount_result            \<comment> \<open>\<open>SPIFFS.begin(true)\<close>, line 45\<close>
  pox_ok :: bool                   \<comment> \<open>\<open>pox.begin()\<close>, line 95\<close>
  mpu_ok :: bool                   \<comment> \<open>\<open>mpu.testConnection()\<close>, line 109\<close>
  wifi_boot :: bool                \<comment> \<open>\<open>wm.autoConnect\<close> under \<open>initializeWiFi()\<close> of line 56\<close>
  time_ntp :: "tm option"          \<comment> \<open>\<open>getLocalTime\<close> of line 129\<close>
  time_gate :: "tm option"         \<comment> \<open>\<open>getLocalTime\<close> of line 67\<close>
  wifi_sync :: bool                \<comment> \<open>\<open>wm.autoConnect\<close> under \<open>initializeWiFi()\<close> of line 76\<close>
  open_read_ok :: bool             \<comment> \<open>whether an existing log file opens for reading, line 140\<close>
  delivered :: bool                \<comment> \<open>whether the receiver behind the serial line got the batch\<close>
  ir_sample :: "nat \<Rightarrow> nat"         \<comment> \<open>\<open>pox.getIR()\<close> in iteration \<open>i\<close>, a \<open>uint32_t\<close>\<close>
  red_sample :: "nat \<Rightarrow> nat"        \<comment> \<open>\<open>pox.getRed()\<close> in iteration \<open>i\<close>\<close>
  temp_c :: float32                \<comment> \<open>\<open>sensors.getTempCByIndex(0)\<close>, line 171\<close>
  astray_file :: "nat \<Rightarrow> string"     \<comment> \<open>the ill-typed conversions of \<open>logFile.printf\<close>, line 182\<close>
  astray_serial :: "nat \<Rightarrow> string"   \<comment> \<open>the ill-typed conversions of \<open>Serial.printf\<close>, line 185\<close>
  open_append_ok :: bool           \<comment> \<open>whether the log file opens for appending, line 174\<close>
  time_log :: "tm option"          \<comment> \<open>\<open>getLocalTime\<close> of line 181\<close>
  accel_x :: "16 word"             \<comment> \<open>\<open>mpu.getAcceleration(&ax, &ay, &az)\<close>, \<open>int16_t\<close> each\<close>
  accel_y :: "16 word"
  accel_z :: "16 word"

subsection \<open>Actions and state\<close>

datatype event =
    Serial_begin nat
  | Serial_println string
  | Serial_printf string
  | Serial_println_time tm
  | SPIFFS_begin mount_result
  | Wire_begin nat nat
  | Pox_begin bool
  | Pox_configure
  | Temp_begin
  | Mpu_initialize
  | Mpu_testConnection bool
  | WiFi_mode_STA
  | WiFi_autoConnect bool
  | Config_time
  | WiFi_disconnect
  | Get_local_time "tm option"
  | File_open_read bool
  | File_open_append bool
  | File_printf string
  | File_close
  | File_remove
  | Sample_optical nat
  | Estimate
  | Read_temperature
  | Get_acceleration
  | Digital_write nat bool
  | Delay nat
  | Timer_wakeup nat
  | Deep_sleep_start

text \<open>
  The steps of the boot sequence, in the order of the text of \<open>setup()\<close>:
  lines 42-52, 54-63, 66-68 and 81-83, 70-80, 155-171, 173-189, 192-204, 206-210.
\<close>
datatype step = Init | Bootstrap | ClockRead | Sync | Acquire | Append | Posture | Sleep

fun step_rank :: "step \<Rightarrow> nat" where
  "step_rank Init = 0"
| "step_rank Bootstrap = 1"
| "step_rank ClockRead = 2"
| "step_rank Sync = 3"
| "step_rank Acquire = 4"
| "step_rank Append = 5"
| "step_rank Posture = 6"
| "step_rank Sleep = 7"

text \<open>
  The two global flags, the radio, the log file (\<open>None\<close>: no such file), whether the
  chip has entered deep sleep, and the actions so far.
\<close>
record state =
  isMorning :: bool
  wifiInitialized :: bool
  wifi_connected :: bool
  log_file :: "string option"
  asleep :: bool
  trace :: "(step \<times> event) list"

text \<open>
  The state at the start of \<open>setup()\<close>: the globals at their initialisers
  (\<open>bool isMorning = false; bool wifiInitialized = false;\<close>, lines 28-29), the radio
  off, the file system as the previous boot left it.
\<close>
definition boot :: "string option \<Rightarrow> state" where
  "boot nv =
     \<lparr>isMorning = False, wifiInitialized = False, wifi_connected = False,
      log_file = nv, asleep = False, trace = []\<rparr>"

definition emits :: "step \<Rightarrow> event list \<Rightarrow> state \<Rightarrow> state" where
  "emits st evs s = s\<lparr>trace := trace s @ map (Pair st) evs\<rparr>"

subsection \<open>The functions of the firmware\<close>

definition initializeSensors :: "wake_env \<Rightarrow> state \<Rightarrow> state" where
  "initializeSensors e s =
     (if \<not> pox_ok e
      then emits Init [Pox_begin False, Serial_println ''Failed to initialize MAX30105''] s
      else
        (let s1 = emits Init [Pox_begin True, Pox_configure, Temp_begin, Mpu_initialize,
                              Mpu_testConnection (mpu_ok e)] s
         in if \<not> mpu_ok e
            then emits Init [Serial_println ''Failed to initialize MPU6050''] s1
            else s1))"

text \<open>
  \<open>initializeWiFi()\<close>, called from two places; \<open>st\<close> is the calling step and
  \<open>connected\<close> the answer of \<open>wm.autoConnect("Sleep Portal")\<close> at that place.
\<close>
definition initializeWiFi :: "step \<Rightarrow> bool \<Rightarrow> state \<Rightarrow> bool \<times> state" where
  "initializeWiFi st connected s =
     (let s1 = (emits st [WiFi_mode_STA, WiFi_autoConnect connected] s)
                 \<lparr>wifi_connected := connected\<rparr>
      in if \<not> connected
         then (False, emits st [Serial_println ''WiFi connection failed''] s1)
         else (True, emits st [Serial_println ''WiFi connected''] s1))"

definition configureTime :: "wake_env \<Rightarrow> state \<Rightarrow> state" where
  "configureTime e s =
     (let s1 = emits Bootstrap [Config_time, Get_local_time (time_ntp e)] s
      in case time_ntp e of
           None \<Rightarrow> emits Bootstrap [Serial_println ''Failed to sync time with NTP''] s1
         | Some t \<Rightarrow> emits Bootstrap [Serial_println_time t] s1)"

text \<open>
  \<open>sendData()\<close>. Opening for reading fails when the file does not exist. Each line
  read is printed with \<open>Serial.println\<close>, which stands for the upload
  (\<open>// Replace with sending data to server\<close>); its return value is dropped, and
  nothing in the function consults whether the batch arrived (\<open>delivered e\<close>).
\<close>
definition sendData :: "wake_env \<Rightarrow> state \<Rightarrow> state" where
  "sendData e s =
     (let s1 = emits Sync [Serial_println ''Sending data...''] s
      in case (if open_read_ok e then log_file s1 else None) of
           None \<Rightarrow> emits Sync [File_open_read False, Serial_println ''Failed to open log file''] s1
         | Some c \<Rightarrow>
             (emits Sync (File_open_read True # map Serial_println (read_lines c)
                          @ [File_close, File_remove]) s1)
               \<lparr>log_file := None\<rparr>)"

text \<open>
  \<open>collectAndLogData()\<close>. Opening with mode \<open>"a"\<close> creates the file when there is
  none. The pacing \<open>delay(10)\<close> of the sampling loop is not recorded.
\<close>
definition collectAndLogData :: "platform \<Rightarrow> wake_env \<Rightarrow> state \<Rightarrow> state" where
  "collectAndLogData P e s =
     (let irBuffer = map (ir_sample e) [0..<BUFFER_SIZE];
          redBuffer = map (red_sample e) [0..<BUFFER_SIZE];
          est = maxim P irBuffer BUFFER_SIZE redBuffer;
          temperature = temp_c e;
          s1 = emits Acquire [Sample_optical BUFFER_SIZE, Estimate, Read_temperature] s
      in if \<not> open_append_ok e
         then emits Append [File_open_append False,
                            Serial_println ''Failed to open log file for writing''] s1
         else
           (let s2 = (emits Append [File_open_append True] s1)
                       \<lparr>log_file := Some (store_bytes (log_file s1))\<rparr>
            in case time_log e of
                 None \<Rightarrow> emits Append [Get_local_time None, File_close] s2
               | Some t \<Rightarrow>
                   (let args = log_args t (heartRate est) (spo2 est) temperature;
                        line = vprintf P (astray_file e) log_format args
                    in (emits Append [Get_local_time (Some t), File_printf line,
                                      Serial_printf
                                        (vprintf P (astray_serial e) logged_format args),
                                      File_close] s2)
                         \<lparr>log_file := Some (store_bytes (log_file s2) @ line)\<rparr>)))"

text \<open>
  \<open>correctPosture()\<close>. \<open>abs\<close> is applied after the promotion of the \<open>int16_t\<close> to
  \<open>int\<close>, so it is the absolute value of the signed reading.
\<close>
definition correctPosture :: "wake_env \<Rightarrow> state \<Rightarrow> state" where
  "correctPosture e s =
     (let ax = accel_x e; ay = accel_y e; az = accel_z e;
          s1 = emits Posture [Get_acceleration] s
      in if \<bar>sint ax\<bar> > 15000 \<or> \<bar>sint ay\<bar> > 15000
         then emits Posture [Digital_write VIBRATION_MOTOR_PIN True, Delay 500,
                             Digital_write VIBRATION_MOTOR_PIN False] s1
         else s1)"

text \<open>\<open>prepareForDeepSleep()\<close>; \<open>esp_deep_sleep_start()\<close> does not return.\<close>
definition prepareForDeepSleep :: "state \<Rightarrow> state" where
  "prepareForDeepSleep s =
     (emits Sleep [Serial_println ''Entering deep sleep...'', Timer_wakeup SLEEP_INTERVAL,
                   Deep_sleep_start] s)
       \<lparr>asleep := True\<rparr>"

text \<open>Lines 54-63 of \<open>setup()\<close>: \<open>// Initialize WiFi only once for time sync\<close>.\<close>
definition bootstrap_block :: "wake_env \<Rightarrow> state \<Rightarrow> state" where
  "bootstrap_block e s =
     (if \<not> wifiInitialized s
      then (case initializeWiFi Bootstrap (wifi_boot e) s of
              (True, s1) \<Rightarrow>
                (emits Bootstrap [WiFi_disconnect] (configureTime e s1))
                  \<lparr>wifi_connected := False, wifiInitialized := True\<rparr>
            | (False, s1) \<Rightarrow>
                emits Bootstrap [Serial_println ''WiFi initialization failed''] s1)
      else s)"

text \<open>
  Lines 65-83 of \<open>setup()\<close>: the clock read and the conditional upload. The
  \<open>printf\<close> of line 68 is well-typed, so no conversion of it goes astray.
\<close>
definition sync_block :: "platform \<Rightarrow> wake_env \<Rightarrow> state \<Rightarrow> state" where
  "sync_block P e s =
     (case time_gate e of
        None \<Rightarrow>
          emits ClockRead [Get_local_time None, Serial_println ''Failed to get time from RTC''] s
      | Some t \<Rightarrow>
          (let s1 = emits ClockRead
                      [Get_local_time (Some t),
                       Serial_printf (vprintf P (\<lambda>k. []) current_time_format (time_args t))] s;
               s2 = (if tm_hour t \<ge> MORNING_HOUR then s1\<lparr>isMorning := True\<rparr> else s1)
           in if isMorning s2
              then (case initializeWiFi Sync (wifi_sync e) s2 of
                      (True, s3) \<Rightarrow> (sendData e s3)\<lparr>isMorning := False\<rparr>
                    | (False, s3) \<Rightarrow> s3)
              else s2))"

text \<open>
  \<open>setup()\<close> (the name is a keyword of Isabelle, hence the suffix). After the early \<open>return\<close> of line 47 the Arduino core calls the empty
  \<open>loop()\<close> for ever: the chip stays awake and no timer is armed.
\<close>
definition setup_wake :: "platform \<Rightarrow> wake_env \<Rightarrow> state \<Rightarrow> state" where
  "setup_wake P e s =
     (let s1 = emits Init [Serial_begin 115200, SPIFFS_begin (mount e)] s
      in if mount e = Mount_failed
         then emits Init [Serial_println ''Failed to mount file system''] s1
         else
           (let s2 = (if mount e = Formatted then s1\<lparr>log_file := None\<rparr> else s1);
                s3 = initializeSensors e (emits Init [Wire_begin I2C_SDA_PIN I2C_SCL_PIN] s2);
                s4 = bootstrap_block e s3;
                s5 = sync_block P e s4;
                s6 = collectAndLogData P e s5;
                s7 = correctPosture e s6
            in prepareForDeepSleep s7))"

text \<open>
  A run of the device: every boot starts from \<open>boot\<close> with the file system of the boot
  before. A boot that does not reach deep sleep has armed no timer, and no boot follows.
\<close>
fun run_wakes :: "platform \<Rightarrow> wake_env list \<Rightarrow> string option \<Rightarrow> state list" where
  "run_wakes P [] nv = []"
| "run_wakes P (e # es) nv =
     (let s = setup_wake P e (boot nv)
      in s # (if asleep s then run_wakes P es (log_file s) else []))"

subsection \<open>Observations on a boot\<close>

text \<open>The actions one step performed, in order.\<close>
definition events_of :: "step \<Rightarrow> state \<Rightarrow> event list" where
  "events_of st s = map snd (filter (\<lambda>x. fst x = st) (trace s))"

fun is_autoConnect :: "event \<Rightarrow> bool" where
  "is_autoConnect (WiFi_autoConnect b) = True"
| "is_autoConnect ev = False"

fun is_Config_time :: "event \<Rightarrow> bool" where
  "is_Config_time Config_time = True"
| "is_Config_time ev = False"

text \<open>How often the upload step tried to connect.\<close>
definition sync_attempts :: "state \<Rightarrow> nat" where
  "sync_attempts s = length (filter is_autoConnect (events_of Sync s))"

text \<open>
  How often the bootstrap step of a boot set the clock from the network
  (\<open>configTime\<close>, line 127).
\<close>
definition clock_bootstraps :: "state \<Rightarrow> nat" where
  "clock_bootstraps s = length (filter is_Config_time (events_of Bootstrap s))"

text \<open>The ranks of the steps of a trace, in the order the actions happened.\<close>
definition step_ranks :: "state \<Rightarrow> nat list" where
  "step_ranks s = map (\<lambda>x. step_rank (fst x)) (trace s)"

text \<open>A file made of the given lines, each followed by the terminator.\<close>
definition file_of_lines :: "string list \<Rightarrow> string" where
  "file_of_lines ls = concat (map (\<lambda>l. l @ [nl]) ls)"

text \<open>
  A log line without its terminator: the time of day as \<open>HH:MM:SS\<close> and three
  fields, separated by commas.
\<close>
definition line_text :: "tm \<Rightarrow> string \<Rightarrow> string \<Rightarrow> string \<Rightarrow> string" where
  "line_text t f0 f1 f2 =
     fmt_02d (tm_hour t) @ '':'' @ fmt_02d (tm_min t) @ '':'' @ fmt_02d (tm_sec t) @
     '','' @ f0 @ '','' @ f1 @ '','' @ f2"

text \<open>
  The trace is ordered by step, and no step beyond the one of rank \<open>k\<close> has acted yet.
\<close>
definition ordered_upto :: "nat \<Rightarrow> state \<Rightarrow> bool" where
  "ordered_upto k s = (sorted (step_ranks s) \<and> list_all (\<lambda>r. r \<le> k) (step_ranks s))"

subsection \<open>A concrete night\<close>

definition t_0500 :: tm where
  "t_0500 = \<lparr>tm_hour = 5, tm_min = 0, tm_sec = 0\<rparr>"

definition t_0559 :: tm where
  "t_0559 = \<lparr>tm_hour = 5, tm_min = 59, tm_sec = 0\<rparr>"

definition t_0600 :: tm where
  "t_0600 = \<lparr>tm_hour = 6, tm_min = 0, tm_sec = 0\<rparr>"

text \<open>
  A platform for the examples: an estimator that always answers 72 beats and 98 percent,
  both flagged valid, and a fixed text for a well-typed \<open>%.2f\<close>.
\<close>
definition bench_platform :: platform where
  "bench_platform =
     \<lparr>maxim = (\<lambda>ir n red. \<lparr>spo2 = 98, validSpO2 = 1, heartRate = 72, validHeartRate = 1\<rparr>),
      fmt_2f = (\<lambda>d. ''36.50'')\<rparr>"

text \<open>
  A boot at 05:00 in which every device answers, the probe reads 36.5 degrees (the
  \<open>float\<close> \<open>0x42120000\<close>) and the wearer lies flat. The three \<open>%.2f\<close>
  conversions of the log line print the temperature twice and then zero, as on a
  machine that passes floating-point arguments in registers of their own.
\<close>
definition night_env :: wake_env where
  "night_env =
     \<lparr>mount = Mounted, pox_ok = True, mpu_ok = True, wifi_boot = True,
      time_ntp = Some t_0500, time_gate = Some t_0500, wifi_sync = True,
      open_read_ok = True, delivered = True,
      ir_sample = (\<lambda>i. 0), red_sample = (\<lambda>i. 0), temp_c = 0x42120000,
      astray_file = (\<lambda>k. [''36.50'', ''36.50'', ''0.00''] ! k),
      astray_serial = (\<lambda>k. [''36.50'', ''0.00'', ''0.00''] ! k),
      open_append_ok = True, time_log = Some t_0500,
      accel_x = 0, accel_y = 0, accel_z = 0\<rparr>"

text \<open>A log file holding one record.\<close>
definition one_line_store :: "string option" where
  "one_line_store = Some (file_of_lines [''05:00:00,0.00,0.00,36.50''])"

section \<open>What each function touches\<close>

text \<open>
  Which fields of the state each function of the firmware leaves alone, and which steps'
  actions it adds to the trace.
\<close>

lemma emits_fields [simp]:
  "trace (emits st evs s) = trace s @ map (Pair st) evs"
  "isMorning (emits st evs s) = isMorning s"
  "wifiInitialized (emits st evs s) = wifiInitialized s"
  "wifi_connected (emits st evs s) = wifi_connected s"
  "log_file (emits st evs s) = log_file s"
  "asleep (emits st evs s) = asleep s"
  by (simp_all add: emits_def)

lemma events_of_emits [simp]:
  "events_of st (emits st' evs s) = events_of st s @ (if st = st' then evs else [])"
  by (simp add: events_of_def emits_def o_def)

lemma events_of_update [simp]:
  "events_of st (s\<lparr>log_file := x\<rparr>) = events_of st s"
  "events_of st (s\<lparr>isMorning := b\<rparr>) = events_of st s"
  "events_of st (s\<lparr>wifiInitialized := b\<rparr>) = events_of st s"
  "events_of st (s\<lparr>wifi_connected := b\<rparr>) = events_of st s"
  "events_of st (s\<lparr>asleep := b\<rparr>) = events_of st s"
  by (simp_all add: events_of_def)

lemma events_of_boot [simp]: "events_of st (boot nv) = []"
  by (simp add: events_of_def boot_def)

lemma boot_fields [simp]:
  "isMorning (boot nv) = False"
  "wifiInitialized (boot nv) = False"
  "wifi_connected (boot nv) = False"
  "log_file (boot nv) = nv"
  "asleep (boot nv) = False"
  "trace (boot nv) = []"
  by (simp_all add: boot_def)

lemma initializeSensors_frame [simp]:
  "isMorning (initializeSensors e s) = isMorning s"
  "wifiInitialized (initializeSensors e s) = wifiInitialized s"
  "wifi_connected (initializeSensors e s) = wifi_connected s"
  "log_file (initializeSensors e s) = log_file s"
  "asleep (initializeSensors e s) = asleep s"
  by (simp_all add: initializeSensors_def Let_def)

lemma initializeSensors_events [simp]:
  "st \<noteq> Init \<Longrightarrow> events_of st (initializeSensors e s) = events_of st s"
  by (simp add: initializeSensors_def Let_def)

lemma initializeWiFi_fst [simp]: "fst (initializeWiFi st c s) = c"
  by (simp add: initializeWiFi_def Let_def)

lemma initializeWiFi_frame [simp]:
  "isMorning (snd (initializeWiFi st c s)) = isMorning s"
  "wifiInitialized (snd (initializeWiFi st c s)) = wifiInitialized s"
  "wifi_connected (snd (initializeWiFi st c s)) = c"
  "log_file (snd (initializeWiFi st c s)) = log_file s"
  "asleep (snd (initializeWiFi st c s)) = asleep s"
  by (simp_all add: initializeWiFi_def Let_def)

lemma initializeWiFi_events [simp]:
  "events_of st' (snd (initializeWiFi st c s)) =
     events_of st' s @
       (if st' = st
        then [WiFi_mode_STA, WiFi_autoConnect c,
              Serial_println (if c then ''WiFi connected'' else ''WiFi connection failed'')]
        else [])"
  by (simp add: initializeWiFi_def Let_def)

lemma configureTime_frame [simp]:
  "isMorning (configureTime e s) = isMorning s"
  "wifiInitialized (configureTime e s) = wifiInitialized s"
  "wifi_connected (configureTime e s) = wifi_connected s"
  "log_file (configureTime e s) = log_file s"
  "asleep (configureTime e s) = asleep s"
  by (simp_all add: configureTime_def Let_def split: option.splits)

lemma configureTime_events [simp]:
  "st \<noteq> Bootstrap \<Longrightarrow> events_of st (configureTime e s) = events_of st s"
  by (simp add: configureTime_def Let_def split: option.splits)

text \<open>The case distinction on the pair that \<open>initializeWiFi\<close> returns, as a conditional.\<close>

lemma bootstrap_block_alt:
  "bootstrap_block e s =
     (if wifiInitialized s then s
      else if wifi_boot e
      then (emits Bootstrap [WiFi_disconnect]
              (configureTime e (snd (initializeWiFi Bootstrap True s))))
             \<lparr>wifi_connected := False, wifiInitialized := True\<rparr>
      else emits Bootstrap [Serial_println ''WiFi initialization failed'']
             (snd (initializeWiFi Bootstrap False s)))"
proof (cases "initializeWiFi Bootstrap (wifi_boot e) s")
  case (Pair c s1)
  then have "c = wifi_boot e"
    using initializeWiFi_fst [of Bootstrap "wifi_boot e" s] by simp
  with Pair show ?thesis
    by (cases "wifi_boot e") (simp_all add: bootstrap_block_def)
qed

lemma bootstrap_block_frame [simp]:
  "isMorning (bootstrap_block e s) = isMorning s"
  "log_file (bootstrap_block e s) = log_file s"
  "asleep (bootstrap_block e s) = asleep s"
  by (simp_all add: bootstrap_block_alt)

lemma bootstrap_block_wifi:
  "\<not> wifiInitialized s \<Longrightarrow> wifi_connected (bootstrap_block e s) = False"
  by (simp add: bootstrap_block_alt)

lemma bootstrap_block_events [simp]:
  "st \<noteq> Bootstrap \<Longrightarrow> events_of st (bootstrap_block e s) = events_of st s"
  by (simp add: bootstrap_block_alt)

lemma sendData_frame [simp]:
  "isMorning (sendData e s) = isMorning s"
  "wifiInitialized (sendData e s) = wifiInitialized s"
  "wifi_connected (sendData e s) = wifi_connected s"
  "asleep (sendData e s) = asleep s"
  by (simp_all add: sendData_def Let_def split: option.splits)

lemma sendData_events [simp]:
  "st \<noteq> Sync \<Longrightarrow> events_of st (sendData e s) = events_of st s"
  by (simp add: sendData_def Let_def split: option.splits)

lemma sync_block_alt:
  "sync_block P e s =
     (case time_gate e of
        None \<Rightarrow>
          emits ClockRead [Get_local_time None, Serial_println ''Failed to get time from RTC''] s
      | Some t \<Rightarrow>
          (let s1 = emits ClockRead
                      [Get_local_time (Some t),
                       Serial_printf (vprintf P (\<lambda>k. []) current_time_format (time_args t))] s;
               s2 = (if tm_hour t \<ge> MORNING_HOUR then s1\<lparr>isMorning := True\<rparr> else s1)
           in if isMorning s2
              then (if wifi_sync e
                    then (sendData e (snd (initializeWiFi Sync True s2)))\<lparr>isMorning := False\<rparr>
                    else snd (initializeWiFi Sync False s2))
              else s2))"
proof -
  have "(case initializeWiFi Sync (wifi_sync e) x of
           (True, s3) \<Rightarrow> (sendData e s3)\<lparr>isMorning := False\<rparr>
         | (False, s3) \<Rightarrow> s3) =
        (if wifi_sync e
         then (sendData e (snd (initializeWiFi Sync True x)))\<lparr>isMorning := False\<rparr>
         else snd (initializeWiFi Sync False x))" for x
  proof (cases "initializeWiFi Sync (wifi_sync e) x")
    case (Pair c s3)
    then have "c = wifi_sync e"
      using initializeWiFi_fst [of Sync "wifi_sync e" x] by simp
    with Pair show ?thesis by (cases "wifi_sync e") simp_all
  qed
  then show ?thesis
    by (simp add: sync_block_def Let_def split: option.splits)
qed

lemma sync_block_frame [simp]:
  "wifiInitialized (sync_block P e s) = wifiInitialized s"
  "asleep (sync_block P e s) = asleep s"
  by (simp_all add: sync_block_alt Let_def split: option.splits)

lemma sync_block_events [simp]:
  "st \<noteq> ClockRead \<Longrightarrow> st \<noteq> Sync \<Longrightarrow> events_of st (sync_block P e s) = events_of st s"
  by (simp add: sync_block_alt Let_def split: option.splits)

lemma collectAndLogData_frame [simp]:
  "isMorning (collectAndLogData P e s) = isMorning s"
  "wifiInitialized (collectAndLogData P e s) = wifiInitialized s"
  "wifi_connected (collectAndLogData P e s) = wifi_connected s"
  "asleep (collectAndLogData P e s) = asleep s"
  by (simp_all add: collectAndLogData_def Let_def split: option.splits)

lemma collectAndLogData_events [simp]:
  "st \<noteq> Acquire \<Longrightarrow> st \<noteq> Append \<Longrightarrow>
     events_of st (collectAndLogData P e s) = events_of st s"
  by (simp add: collectAndLogData_def Let_def split: option.splits)

lemma correctPosture_emits:
  "correctPosture e s =
     emits Posture
       (Get_acceleration #
        (if 15000 < \<bar>sint (accel_x e)\<bar> \<or> 15000 < \<bar>sint (accel_y e)\<bar>
         then [Digital_write VIBRATION_MOTOR_PIN True, Delay 500,
               Digital_write VIBRATION_MOTOR_PIN False]
         else [])) s"
  by (simp add: correctPosture_def Let_def emits_def)

lemma correctPosture_frame [simp]:
  "isMorning (correctPosture e s) = isMorning s"
  "wifiInitialized (correctPosture e s) = wifiInitialized s"
  "wifi_connected (correctPosture e s) = wifi_connected s"
  "log_file (correctPosture e s) = log_file s"
  "asleep (correctPosture e s) = asleep s"
  by (simp_all add: correctPosture_emits)

lemma correctPosture_events [simp]:
  "st \<noteq> Posture \<Longrightarrow> events_of st (correctPosture e s) = events_of st s"
  by (simp add: correctPosture_emits)

lemma prepareForDeepSleep_frame [simp]:
  "isMorning (prepareForDeepSleep s) = isMorning s"
  "wifiInitialized (prepareForDeepSleep s) = wifiInitialized s"
  "wifi_connected (prepareForDeepSleep s) = wifi_connected s"
  "log_file (prepareForDeepSleep s) = log_file s"
  "asleep (prepareForDeepSleep s) = True"
  by (simp_all add: prepareForDeepSleep_def)

lemma prepareForDeepSleep_events [simp]:
  "events_of st (prepareForDeepSleep s) =
     events_of st s @
       (if st = Sleep
        then [Serial_println ''Entering deep sleep...'', Timer_wakeup SLEEP_INTERVAL,
              Deep_sleep_start]
        else [])"
  by (simp add: prepareForDeepSleep_def)

text \<open>A boot whose mount succeeds runs all the steps, one after the other.\<close>

lemma setup_wake_mounted:
  "mount e \<noteq> Mount_failed \<Longrightarrow>
     setup_wake P e s =
       prepareForDeepSleep (correctPosture e (collectAndLogData P e (sync_block P e
         (bootstrap_block e (initializeSensors e
            (emits Init [Wire_begin I2C_SDA_PIN I2C_SCL_PIN]
               ((emits Init [Serial_begin 115200, SPIFFS_begin (mount e)] s)
                  \<lparr>log_file := (if mount e = Formatted then None else log_file s)\<rparr>)))))))"
  by (simp add: setup_wake_def Let_def emits_def)

text \<open>How often a boot that reaches the gate tries to connect for the upload.\<close>

lemma sync_attempts_wake:
  assumes "mount e \<noteq> Mount_failed" and "time_gate e = Some t"
  shows "sync_attempts (setup_wake P e (boot nv)) = (if MORNING_HOUR \<le> tm_hour t then 1 else 0)"
  using assms
  by (simp add: setup_wake_mounted sync_attempts_def sync_block_alt Let_def sendData_def
           split: option.splits)

text \<open>Every boot that mounts the file system tries the clock bootstrap.\<close>

lemma clock_bootstraps_wake:
  "clock_bootstraps (setup_wake P e (boot nv)) =
     (if mount e = Mount_failed then 0 else if wifi_boot e then 1 else 0)"
proof (cases "mount e = Mount_failed")
  case True
  then show ?thesis
    by (simp add: clock_bootstraps_def setup_wake_def Let_def)
next
  case False
  then show ?thesis
    by (simp add: clock_bootstraps_def setup_wake_mounted bootstrap_block_alt
          configureTime_def Let_def split: option.splits)
qed

text \<open>The upload step below the threshold hour.\<close>

lemma sync_block_closed:
  assumes "time_gate e = Some t" and "tm_hour t < MORNING_HOUR" and "\<not> isMorning s"
  shows "sync_block P e s =
           emits ClockRead [Get_local_time (Some t),
                            Serial_printf (vprintf P (\<lambda>k. []) current_time_format (time_args t))] s"
  using assms by (simp add: sync_block_alt Let_def)

lemma wake_closed_gate_file:
  assumes "mount e \<noteq> Mount_failed" and "time_gate e = Some t" and "tm_hour t < MORNING_HOUR"
  shows "log_file (setup_wake P e (boot nv)) =
           log_file (collectAndLogData P e
             ((boot nv)\<lparr>log_file := (if mount e = Formatted then None else nv)\<rparr>))"
  using assms
  by (simp add: setup_wake_mounted sync_block_closed collectAndLogData_def Let_def
           split: option.splits)

text \<open>The order of the steps along a boot.\<close>

lemma ordered_upto_mono: "ordered_upto k s \<Longrightarrow> k \<le> k' \<Longrightarrow> ordered_upto k' s"
  by (auto simp: ordered_upto_def list_all_iff)

lemma ordered_upto_boot [simp]: "ordered_upto k (boot nv)"
  by (simp add: ordered_upto_def step_ranks_def)

lemma ordered_upto_update [simp]:
  "ordered_upto k (s\<lparr>log_file := x\<rparr>) = ordered_upto k s"
  "ordered_upto k (s\<lparr>isMorning := b\<rparr>) = ordered_upto k s"
  "ordered_upto k (s\<lparr>wifiInitialized := b\<rparr>) = ordered_upto k s"
  "ordered_upto k (s\<lparr>wifi_connected := b\<rparr>) = ordered_upto k s"
  "ordered_upto k (s\<lparr>asleep := b\<rparr>) = ordered_upto k s"
  by (simp_all add: ordered_upto_def step_ranks_def)

lemma ordered_upto_emits [simp]:
  "ordered_upto k (emits st (ev # evs) s) = (ordered_upto (step_rank st) s \<and> step_rank st \<le> k)"
  by (auto simp: ordered_upto_def step_ranks_def sorted_append list_all_iff o_def
        map_replicate_const)

lemma ordered_initializeSensors [simp]:
  "ordered_upto k (initializeSensors e s) = ordered_upto 0 s"
  by (simp add: initializeSensors_def Let_def)

lemma ordered_initializeWiFi [simp]:
  "ordered_upto k (snd (initializeWiFi st c s)) = (ordered_upto (step_rank st) s \<and> step_rank st \<le> k)"
  by (simp add: initializeWiFi_def Let_def)

lemma ordered_configureTime [simp]:
  "ordered_upto k (configureTime e s) = (ordered_upto 1 s \<and> 1 \<le> k)"
  by (auto simp add: configureTime_def Let_def split: option.splits)

lemma ordered_bootstrap_block:
  "\<not> wifiInitialized s \<Longrightarrow> ordered_upto k (bootstrap_block e s) = (ordered_upto 1 s \<and> 1 \<le> k)"
  by (auto simp add: bootstrap_block_alt)

lemma ordered_sendData [simp]:
  "ordered_upto k (sendData e s) = (ordered_upto 3 s \<and> 3 \<le> k)"
  by (auto simp add: sendData_def Let_def split: option.splits)

lemma ordered_sync_block:
  "ordered_upto 2 s \<Longrightarrow> ordered_upto 3 (sync_block P e s)"
  by (auto simp add: sync_block_alt Let_def split: option.splits)

lemma ordered_collectAndLogData [simp]:
  "ordered_upto k (collectAndLogData P e s) = (ordered_upto 4 s \<and> 5 \<le> k)"
  by (auto simp add: collectAndLogData_def Let_def split: option.splits)

lemma ordered_correctPosture [simp]:
  "ordered_upto k (correctPosture e s) = (ordered_upto 6 s \<and> 6 \<le> k)"
  by (auto simp add: correctPosture_emits)

lemma ordered_prepareForDeepSleep [simp]:
  "ordered_upto k (prepareForDeepSleep s) = (ordered_upto 7 s \<and> 7 \<le> k)"
  by (simp add: prepareForDeepSleep_def)

lemma ordered_setup_wake:
  assumes "mount e \<noteq> Mount_failed"
  shows "ordered_upto 7 (setup_wake P e (boot nv))"
proof -
  let ?s3 = "initializeSensors e
            (emits Init [Wire_begin I2C_SDA_PIN I2C_SCL_PIN]
               ((emits Init [Serial_begin 115200, SPIFFS_begin (mount e)] (boot nv))
                  \<lparr>log_file := (if mount e = Formatted then None else log_file (boot nv))\<rparr>))"
  have "ordered_upto 1 ?s3" by simp
  moreover have "\<not> wifiInitialized ?s3" by simp
  ultimately have "ordered_upto 1 (bootstrap_block e ?s3)"
    by (simp add: ordered_bootstrap_block)
  then have "ordered_upto 2 (bootstrap_block e ?s3)"
    by (rule ordered_upto_mono) simp
  then have "ordered_upto 3 (sync_block P e (bootstrap_block e ?s3))"
    by (rule ordered_sync_block)
  then have "ordered_upto 4 (sync_block P e (bootstrap_block e ?s3))"
    by (rule ordered_upto_mono) simp
  then have "ordered_upto 5 (collectAndLogData P e (sync_block P e (bootstrap_block e ?s3)))"
    by simp
  then have "ordered_upto 6 (collectAndLogData P e (sync_block P e (bootstrap_block e ?s3)))"
    by (rule ordered_upto_mono) simp
  then show ?thesis
    using assms by (simp add: setup_wake_mounted)
qed

lemma trace_prepareForDeepSleep:
  "trace (prepareForDeepSleep s) =
     trace s @ [(Sleep, Serial_println ''Entering deep sleep...''),
                (Sleep, Timer_wakeup SLEEP_INTERVAL), (Sleep, Deep_sleep_start)]"
  by (simp add: prepareForDeepSleep_def)

text \<open>Reading back a file of terminated lines.\<close>

lemma readStringUntil_line:
  "t \<notin> set l \<Longrightarrow> readStringUntil t (l @ t # rest) = (l, rest)"
  by (induction l) auto

lemma read_lines_Nil [simp]: "read_lines [] = []"
  by (simp add: read_lines.simps)

lemma read_lines_line:
  assumes "nl \<notin> set l"
  shows "read_lines (l @ nl # rest) = l # read_lines rest"
proof -
  have "read_lines (l @ nl # rest) =
          (case readStringUntil nl (l @ nl # rest) of (line, r) \<Rightarrow> line # read_lines r)"
    by (subst read_lines.simps) simp
  then show ?thesis using assms by (simp add: readStringUntil_line)
qed

lemma read_lines_file_of_lines:
  "(\<forall>l \<in> set ls. nl \<notin> set l) \<Longrightarrow> read_lines (file_of_lines ls) = ls"
proof (induction ls)
  case Nil
  then show ?case by (simp add: file_of_lines_def)
next
  case (Cons l ls)
  then have "read_lines (file_of_lines ls) = ls" and "nl \<notin> set l" by simp_all
  then show ?case
    using read_lines_line [of l "file_of_lines ls"] by (simp add: file_of_lines_def)
qed

lemma sendData_opened:
  assumes "open_read_ok e" and "log_file s = Some c"
  shows "sendData e s =
           (emits Sync (Serial_println ''Sending data...'' # File_open_read True #
                        map Serial_println (read_lines c) @ [File_close, File_remove]) s)
             \<lparr>log_file := None\<rparr>"
  using assms by (simp add: sendData_def Let_def emits_def)

lemma sendData_not_opened:
  assumes "\<not> (open_read_ok e \<and> log_file s \<noteq> None)"
  shows "sendData e s =
           emits Sync [Serial_println ''Sending data...'', File_open_read False,
                       Serial_println ''Failed to open log file''] s"
  using assms by (auto simp add: sendData_def Let_def emits_def)

lemma sendData_delivered: "sendData (e\<lparr>delivered := ok\<rparr>) s = sendData e s"
  by (simp add: sendData_def)

lemma nl_free_line: "nl \<notin> set ''05:00:00,0.00,0.00,36.50''"
  by (simp add: nl_def)

text \<open>
  A well-typed call prints what the format says, whatever the environment holds for
  conversions gone astray; the call of line 68 is one.
\<close>

lemma vprintf_well_typed:
  "printf_ok fs as \<Longrightarrow> vprintf P ub fs as = vprintf P ub' fs as"
  by (induction fs as rule: printf_ok.induct) (auto elim: conv_ok.elims)

lemma current_time_well_typed: "printf_ok current_time_format (time_args t)"
  by (simp add: current_time_format_def time_args_def)

lemma current_time_text:
  "vprintf P ub current_time_format (time_args t) =
     ''Current time: '' @ fmt_02d (tm_hour t) @ '':'' @ fmt_02d (tm_min t) @ '':'' @
     fmt_02d (tm_sec t) @ [nl]"
  by (simp add: current_time_format_def time_args_def)

text \<open>What the two \<open>printf\<close> calls of \<open>collectAndLogData\<close> print.\<close>

lemma log_line_text:
  "vprintf P ub log_format (log_args t hr sp temp) = line_text t (ub 0) (ub 1) (ub 2) @ [nl]"
  by (simp add: log_format_def log_args_def time_args_def line_text_def numeral_2_eq_2)

lemma logged_line_text:
  "vprintf P ub logged_format (log_args t hr sp temp) =
     ''Logged: '' @ fmt_02d (tm_hour t) @ '':'' @ fmt_02d (tm_min t) @ '':'' @
     fmt_02d (tm_sec t) @ '', HR: '' @ ub 0 @ '', SpO2: '' @ ub 1 @ '', Temp: '' @ ub 2 @ [nl]"
  by (simp add: logged_format_def log_args_def time_args_def numeral_2_eq_2)

lemma collectAndLogData_logged:
  assumes "open_append_ok e" and "time_log e = Some t"
  shows "log_file (collectAndLogData P e s) =
           Some (store_bytes (log_file s) @
                 line_text t (astray_file e 0) (astray_file e 1) (astray_file e 2) @ [nl])"
  using assms by (simp add: collectAndLogData_def Let_def log_line_text)

text \<open>The digits of \<open>%02d\<close> hold no line terminator.\<close>

lemma digit_char_no_nl: "d < 10 \<Longrightarrow> digit_char d \<noteq> nl"
proof -
  assume "d < 10"
  then have "d \<in> {0, 1, 2, 3, 4, 5, 6, 7, 8, 9}" by auto
  then show ?thesis
    by (auto simp: digit_char_def nl_def)
qed

lemma dec_digits_no_nl: "nl \<notin> set (dec_digits n)"
proof (induction n rule: dec_digits.induct)
  case (1 n)
  show ?case
  proof (cases "n < 10")
    case True
    then show ?thesis
      using digit_char_no_nl [of n] by (subst dec_digits.simps) auto
  next
    case False
    then have "nl \<notin> set (dec_digits (n div 10))" using "1.IH" by simp
    moreover have "digit_char (n mod 10) \<noteq> nl" by (rule digit_char_no_nl) simp
    ultimately show ?thesis
      using False by (subst dec_digits.simps) auto
  qed
qed

lemma fmt_02d_no_nl: "nl \<notin> set (fmt_02d n)"
  using dec_digits_no_nl by (auto simp: fmt_02d_def nl_def)

lemma line_text_no_nl:
  "nl \<notin> set f0 \<Longrightarrow> nl \<notin> set f1 \<Longrightarrow> nl \<notin> set f2 \<Longrightarrow> nl \<notin> set (line_text t f0 f1 f2)"
  using fmt_02d_no_nl by (auto simp: line_text_def nl_def)

lemma read_lines_appended:
  assumes "\<forall>l \<in> set ls. nl \<notin> set l" and "nl \<notin> set l"
  shows "read_lines (file_of_lines ls @ l @ [nl]) = ls @ [l]"
proof -
  have "file_of_lines ls @ l @ [nl] = file_of_lines (ls @ [l])"
    by (simp add: file_of_lines_def)
  then show ?thesis
    using assms read_lines_file_of_lines [of "ls @ [l]"] by auto
qed

text \<open>The line of the example boot.\<close>

lemma night_line: "line_text t_0500 ''36.50'' ''36.50'' ''0.00'' = ''05:00:00,36.50,36.50,0.00''"
  by (simp add: line_text_def t_0500_def fmt_02d_def dec_digits.simps digit_char_def)

lemma night_astray:
  "astray_file night_env 0 = ''36.50''" "astray_file night_env 1 = ''36.50''"
  "astray_file night_env 2 = ''0.00''"
  by (simp_all add: night_env_def)

text \<open>What a boot that mounts the file system does in each step.\<close>

lemma wake_append_events:
  assumes "mount e \<noteq> Mount_failed" and "open_append_ok e" and "time_log e = Some t"
  shows "events_of Append (setup_wake P e (boot nv)) =
           [File_open_append True, Get_local_time (Some t),
            File_printf (line_text t (astray_file e 0) (astray_file e 1) (astray_file e 2) @ [nl]),
            Serial_printf
              (''Logged: '' @ fmt_02d (tm_hour t) @ '':'' @ fmt_02d (tm_min t) @ '':'' @
               fmt_02d (tm_sec t) @ '', HR: '' @ astray_serial e 0 @ '', SpO2: '' @
               astray_serial e 1 @ '', Temp: '' @ astray_serial e 2 @ [nl]),
            File_close]"
  using assms
  by (simp add: setup_wake_mounted collectAndLogData_def Let_def log_line_text logged_line_text)

lemma wake_posture_events:
  assumes "mount e \<noteq> Mount_failed"
  shows "events_of Posture (setup_wake P e (boot nv)) =
           Get_acceleration #
           (if 15000 < \<bar>sint (accel_x e)\<bar> \<or> 15000 < \<bar>sint (accel_y e)\<bar>
            then [Digital_write VIBRATION_MOTOR_PIN True, Delay 500,
                  Digital_write VIBRATION_MOTOR_PIN False]
            else [])"
  using assms by (simp add: setup_wake_mounted correctPosture_emits)

lemma wake_bootstrap_events:
  assumes "mount e \<noteq> Mount_failed"
  shows "events_of Bootstrap (setup_wake P e (boot nv)) =
           WiFi_mode_STA # WiFi_autoConnect (wifi_boot e) #
           (if wifi_boot e
            then [Serial_println ''WiFi connected'', Config_time, Get_local_time (time_ntp e),
                  (case time_ntp e of
                     None \<Rightarrow> Serial_println ''Failed to sync time with NTP''
                   | Some tn \<Rightarrow> Serial_println_time tn),
                  WiFi_disconnect]
            else [Serial_println ''WiFi connection failed'',
                  Serial_println ''WiFi initialization failed''])"
  using assms
  by (simp add: setup_wake_mounted bootstrap_block_alt configureTime_def Let_def
           split: option.splits)

lemma wake_clock_read:
  assumes "mount e \<noteq> Mount_failed"
  shows "take 1 (events_of ClockRead (setup_wake P e (boot nv))) = [Get_local_time (time_gate e)]"
  using assms
  by (simp add: setup_wake_mounted sync_block_alt Let_def split: option.splits)

lemma wake_sync_attempts:
  assumes "mount e \<noteq> Mount_failed"
  shows "sync_attempts (setup_wake P e (boot nv)) =
           (case time_gate e of
              None \<Rightarrow> 0
            | Some t \<Rightarrow> if MORNING_HOUR \<le> tm_hour t then 1 else 0)"
  using assms
  by (simp add: setup_wake_mounted sync_attempts_def sync_block_alt Let_def sendData_def
           split: option.splits)

lemma wake_append_open:
  assumes "mount e \<noteq> Mount_failed"
  shows "take 1 (events_of Append (setup_wake P e (boot nv))) =
           [File_open_append (open_append_ok e)]"
  using assms
  by (simp add: setup_wake_mounted collectAndLogData_def Let_def split: option.splits)

section \<open>The claims of the specification\<close>

subsection \<open>C1: draining the store\<close>

text \<open>
  C1. \<open>sendData\<close> has no notion of a delivery outcome. When the log file opens, it
  prints the lines of the file in the order they are stored and then removes the file,
  whether the batch was delivered or not; the store is left as it was only when the file
  cannot be opened, and then no line is handed on. The lines read back from a store that
  was filled line by line are those lines, in the order of their insertion.
\<close>

theorem sendData_clears_whatever_the_outcome:
  "(open_read_ok e \<and> log_file s = Some c \<longrightarrow>
      sendData (e\<lparr>delivered := ok\<rparr>) s =
        (emits Sync (Serial_println ''Sending data...'' # File_open_read True #
                     map Serial_println (read_lines c) @ [File_close, File_remove]) s)
          \<lparr>log_file := None\<rparr>)
   \<and> (\<not> (open_read_ok e \<and> log_file s \<noteq> None) \<longrightarrow>
        sendData (e\<lparr>delivered := ok\<rparr>) s =
          emits Sync [Serial_println ''Sending data...'', File_open_read False,
                      Serial_println ''Failed to open log file''] s)
   \<and> ((\<forall>l \<in> set ls. nl \<notin> set l) \<longrightarrow> read_lines (file_of_lines ls) = ls)"
  by (simp add: sendData_delivered sendData_opened sendData_not_opened
        read_lines_file_of_lines)

theorem sendData_clears_whatever_the_outcome_witness:
  "open_read_ok night_env \<and> log_file (boot one_line_store) = one_line_store
   \<and> log_file (sendData (night_env\<lparr>delivered := False\<rparr>) (boot one_line_store)) = None
   \<and> events_of Sync (sendData (night_env\<lparr>delivered := False\<rparr>) (boot one_line_store)) =
       [Serial_println ''Sending data...'', File_open_read True,
        Serial_println ''05:00:00,0.00,0.00,36.50'', File_close, File_remove]
   \<and> \<not> (open_read_ok night_env \<and> log_file (boot None) \<noteq> None)
   \<and> log_file (sendData (night_env\<lparr>delivered := True\<rparr>) (boot None)) = log_file (boot None)
   \<and> nl \<notin> set ''05:00:00,0.00,0.00,36.50''
   \<and> read_lines (file_of_lines [''05:00:00,0.00,0.00,36.50'']) = [''05:00:00,0.00,0.00,36.50'']"
proof -
  have o: "open_read_ok night_env" by (simp add: night_env_def)
  have l: "log_file (boot one_line_store) = Some (file_of_lines [''05:00:00,0.00,0.00,36.50''])"
    by (simp add: one_line_store_def)
  have n: "\<not> (open_read_ok night_env \<and> log_file (boot None) \<noteq> None)" by simp
  have f: "\<forall>l \<in> set [''05:00:00,0.00,0.00,36.50'']. nl \<notin> set l"
    using nl_free_line by simp
  have r: "read_lines (file_of_lines [''05:00:00,0.00,0.00,36.50'']) =
             [''05:00:00,0.00,0.00,36.50'']"
    using f sendData_clears_whatever_the_outcome
              [where ls = "[''05:00:00,0.00,0.00,36.50'']"]
    by blast
  have a: "sendData (night_env\<lparr>delivered := False\<rparr>) (boot one_line_store) =
        (emits Sync (Serial_println ''Sending data...'' # File_open_read True #
                     map Serial_println (read_lines (file_of_lines [''05:00:00,0.00,0.00,36.50'']))
                     @ [File_close, File_remove]) (boot one_line_store))
          \<lparr>log_file := None\<rparr>"
    using o l sendData_clears_whatever_the_outcome
                [where e = night_env and s = "boot one_line_store" and ok = False
                   and c = "file_of_lines [''05:00:00,0.00,0.00,36.50'']"]
    by blast
  have b: "sendData (night_env\<lparr>delivered := True\<rparr>) (boot None) =
          emits Sync [Serial_println ''Sending data...'', File_open_read False,
                      Serial_println ''Failed to open log file''] (boot None)"
    using n sendData_clears_whatever_the_outcome
                [where e = night_env and s = "boot None" and ok = True]
    by blast
  have a1: "log_file (sendData (night_env\<lparr>delivered := False\<rparr>) (boot one_line_store)) = None"
    and a2: "events_of Sync (sendData (night_env\<lparr>delivered := False\<rparr>) (boot one_line_store)) =
       [Serial_println ''Sending data...'', File_open_read True,
        Serial_println ''05:00:00,0.00,0.00,36.50'', File_close, File_remove]"
    by (simp_all add: a r)
  have b1: "log_file (sendData (night_env\<lparr>delivered := True\<rparr>) (boot None)) = log_file (boot None)"
    by (simp add: b)
  have l': "log_file (boot one_line_store) = one_line_store" by simp
  show ?thesis
    using o l' a1 a2 n b1 nl_free_line r by blast
qed

text \<open>
  The success-gated clear fails on a store of one record and a delivery that fails: the
  record is gone afterwards.
\<close>

theorem failed_delivery_clears_store:
  "\<not> delivered (night_env\<lparr>delivered := False\<rparr>)
   \<and> read_lines (store_bytes (log_file (boot one_line_store))) = [''05:00:00,0.00,0.00,36.50'']
   \<and> log_file (sendData (night_env\<lparr>delivered := False\<rparr>) (boot one_line_store)) = None
   \<and> read_lines (store_bytes
         (log_file (sendData (night_env\<lparr>delivered := False\<rparr>) (boot one_line_store)))) = []"
proof -
  have "log_file (sendData (night_env\<lparr>delivered := False\<rparr>) (boot one_line_store)) = None"
    by (simp add: sendData_delivered
          sendData_opened [where c = "file_of_lines [''05:00:00,0.00,0.00,36.50'']"]
          night_env_def one_line_store_def)
  moreover
  have "read_lines (store_bytes (log_file (boot one_line_store))) = [''05:00:00,0.00,0.00,36.50'']"
    using nl_free_line by (simp add: one_line_store_def read_lines_file_of_lines)
  ultimately show ?thesis by simp
qed

subsection \<open>C2: the clock bootstrap is repeated\<close>

text \<open>
  C2. The bootstrap is guarded by \<open>wifiInitialized\<close>, a global that is false at the
  start of every boot. Two boots in a row, each with a working mount and a network in
  reach, therefore both connect and both set the clock with \<open>configTime\<close>: the second
  boot does not skip the bootstrap.
\<close>

theorem bootstrap_repeats_every_boot:
  "map clock_bootstraps (run_wakes bench_platform [night_env, night_env] None) = [1, 1]"
proof -
  have m: "mount night_env \<noteq> Mount_failed" and w: "wifi_boot night_env"
    by (simp_all add: night_env_def)
  have "asleep (setup_wake bench_platform night_env (boot nv))" for nv
    using m by (simp add: setup_wake_mounted)
  moreover have "clock_bootstraps (setup_wake bench_platform night_env (boot nv)) = 1" for nv
    using m w by (simp add: clock_bootstraps_wake)
  ultimately show ?thesis by (simp add: Let_def)
qed

subsection \<open>C3: the format of a log line\<close>

text \<open>
  C3. The \<open>printf\<close> call that writes a log line, and the one that echoes it, pair the
  \<open>%.2f\<close> conversions for heart rate and SpO2 with \<open>int32_t\<close> arguments: both calls
  are ill-typed for every record, so the measurement fields of a line are not the decimal
  renderings of the record's values. In the example boot the estimator returns 72 and 98
  and the probe 36.5 degrees; the line that reaches the file and is read back is
  \<open>05:00:00,36.50,36.50,0.00\<close>.
\<close>

theorem log_printf_is_ill_typed:
  "\<not> printf_ok log_format (log_args t hr sp temp)
   \<and> \<not> printf_ok logged_format (log_args t hr sp temp)
   \<and> heartRate (maxim bench_platform (map (ir_sample night_env) [0..<BUFFER_SIZE]) BUFFER_SIZE
        (map (red_sample night_env) [0..<BUFFER_SIZE])) = 72
   \<and> spo2 (maxim bench_platform (map (ir_sample night_env) [0..<BUFFER_SIZE]) BUFFER_SIZE
        (map (red_sample night_env) [0..<BUFFER_SIZE])) = 98
   \<and> read_lines (store_bytes (log_file
        (collectAndLogData bench_platform night_env (boot None)))) =
       [''05:00:00,36.50,36.50,0.00'']"
proof -
  have o: "open_append_ok night_env" and t: "time_log night_env = Some t_0500"
    by (simp_all add: night_env_def)
  have "log_file (collectAndLogData bench_platform night_env (boot None)) =
          Some (''05:00:00,36.50,36.50,0.00'' @ [nl])"
    using collectAndLogData_logged [OF o t, of bench_platform "boot None"]
    unfolding night_astray night_line by simp
  moreover have "nl \<notin> set ''05:00:00,36.50,36.50,0.00''" by (simp add: nl_def)
  ultimately have "read_lines (store_bytes (log_file
        (collectAndLogData bench_platform night_env (boot None)))) =
       [''05:00:00,36.50,36.50,0.00'']"
    using read_lines_appended [of "[]" "''05:00:00,36.50,36.50,0.00''"]
    by (simp add: file_of_lines_def)
  then show ?thesis
    by (simp add: log_format_def logged_format_def log_args_def time_args_def bench_platform_def)
qed

subsection \<open>C4: a failed mount aborts the boot\<close>

text \<open>
  C4. When \<open>SPIFFS.begin(true)\<close> fails, \<open>setup()\<close> prints one message and returns:
  the state is the state at boot with three actions on the trace (the serial port opened,
  the mount attempted, the message printed). No sensor is initialised, no clock bootstrap,
  clock read, upload, acquisition, append or posture check happens, the wake timer is not
  armed and the chip does not enter deep sleep; the log file is as the boot found it.
\<close>

theorem mount_failure_aborts:
  assumes "mount e = Mount_failed"
  shows "setup_wake P e (boot nv) =
           (boot nv)\<lparr>trace := [(Init, Serial_begin 115200), (Init, SPIFFS_begin Mount_failed),
                               (Init, Serial_println ''Failed to mount file system'')]\<rparr>
         \<and> \<not> asleep (setup_wake P e (boot nv))
         \<and> log_file (setup_wake P e (boot nv)) = nv
         \<and> events_of Bootstrap (setup_wake P e (boot nv)) = []
         \<and> events_of ClockRead (setup_wake P e (boot nv)) = []
         \<and> events_of Sync (setup_wake P e (boot nv)) = []
         \<and> events_of Acquire (setup_wake P e (boot nv)) = []
         \<and> events_of Append (setup_wake P e (boot nv)) = []
         \<and> events_of Posture (setup_wake P e (boot nv)) = []
         \<and> events_of Sleep (setup_wake P e (boot nv)) = []"
  using assms by (simp add: setup_wake_def Let_def emits_def boot_def events_of_def)

theorem mount_failure_aborts_witness:
  "mount (night_env\<lparr>mount := Mount_failed\<rparr>) = Mount_failed
   \<and> \<not> asleep (setup_wake bench_platform (night_env\<lparr>mount := Mount_failed\<rparr>)
              (boot one_line_store))
   \<and> log_file (setup_wake bench_platform (night_env\<lparr>mount := Mount_failed\<rparr>)
         (boot one_line_store)) = one_line_store
   \<and> events_of Sleep (setup_wake bench_platform (night_env\<lparr>mount := Mount_failed\<rparr>)
         (boot one_line_store)) = []"
proof -
  have h: "mount (night_env\<lparr>mount := Mount_failed\<rparr>) = Mount_failed" by simp
  show ?thesis
    using h mount_failure_aborts [OF h, of bench_platform one_line_store] by blast
qed

subsection \<open>C5: the boundary of the morning gate\<close>

text \<open>
  C5. In a boot that reaches the gate (the mount did not fail) and reads the clock there,
  the upload step tries to connect once when the hour is at least \<open>MORNING_HOUR\<close> and
  not at all otherwise. In particular it tries at an hour equal to the threshold, and it
  does not try at minute 59 of the hour before.
\<close>

theorem sync_gate_boundary:
  assumes "mount e \<noteq> Mount_failed" and "time_gate e = Some t"
  shows "sync_attempts (setup_wake P e (boot nv)) = (if MORNING_HOUR \<le> tm_hour t then 1 else 0)
         \<and> (tm_hour t = MORNING_HOUR \<longrightarrow> sync_attempts (setup_wake P e (boot nv)) = 1)
         \<and> (tm_hour t = MORNING_HOUR - 1 \<and> tm_min t = 59 \<longrightarrow>
                sync_attempts (setup_wake P e (boot nv)) = 0)"
  using sync_attempts_wake [OF assms, of P nv] by simp

theorem sync_gate_boundary_witness:
  "mount (night_env\<lparr>time_gate := Some t_0600\<rparr>) \<noteq> Mount_failed
   \<and> time_gate (night_env\<lparr>time_gate := Some t_0600\<rparr>) = Some t_0600
   \<and> tm_hour t_0600 = MORNING_HOUR
   \<and> sync_attempts (setup_wake bench_platform (night_env\<lparr>time_gate := Some t_0600\<rparr>)
         (boot one_line_store)) = 1
   \<and> mount (night_env\<lparr>time_gate := Some t_0559\<rparr>) \<noteq> Mount_failed
   \<and> time_gate (night_env\<lparr>time_gate := Some t_0559\<rparr>) = Some t_0559
   \<and> tm_hour t_0559 = MORNING_HOUR - 1 \<and> tm_min t_0559 = 59
   \<and> sync_attempts (setup_wake bench_platform (night_env\<lparr>time_gate := Some t_0559\<rparr>)
         (boot one_line_store)) = 0"
proof -
  have m6: "mount (night_env\<lparr>time_gate := Some t_0600\<rparr>) \<noteq> Mount_failed"
    and m5: "mount (night_env\<lparr>time_gate := Some t_0559\<rparr>) \<noteq> Mount_failed"
    by (simp_all add: night_env_def)
  have g6: "time_gate (night_env\<lparr>time_gate := Some t_0600\<rparr>) = Some t_0600"
    and g5: "time_gate (night_env\<lparr>time_gate := Some t_0559\<rparr>) = Some t_0559"
    by simp_all
  have h6: "tm_hour t_0600 = MORNING_HOUR"
    and h5: "tm_hour t_0559 = MORNING_HOUR - 1 \<and> tm_min t_0559 = 59"
    by (simp_all add: t_0600_def t_0559_def MORNING_HOUR_def)
  show ?thesis
    using m6 m5 g6 g5 h6 h5
      sync_gate_boundary [OF m6 g6, of bench_platform one_line_store]
      sync_gate_boundary [OF m5 g5, of bench_platform one_line_store]
    by blast
qed

subsection \<open>C6: with the gate closed the upload step does nothing\<close>

text \<open>
  C6. Take a boot whose clock read at the gate gives an hour below \<open>MORNING_HOUR\<close>.
  The upload step (lines 65-83), entered with \<open>isMorning\<close> false as it is in every
  boot, only reads the clock and prints the time: the log file, the radio and the two
  flags are as before, and the step makes no call to \<open>initializeWiFi\<close> or
  \<open>sendData\<close>. In the whole boot (the mount not having failed) no action belongs to the
  upload step. Provided the log file then opens for appending and the clock is read
  again for the time stamp, the boot writes to the file once: the file afterwards is the
  file the boot mounted, for every content of it, followed by one text made of the time
  of day, three comma-separated fields and the terminator. When the mounted file consists
  of terminated lines and the three fields hold no terminator, reading the file back
  gives the old lines followed by exactly one new line.
\<close>

theorem closed_gate_sync_is_noop:
  assumes "time_gate e = Some t" and "tm_hour t < MORNING_HOUR"
  shows "(\<not> isMorning s \<longrightarrow>
            sync_block P e s =
              emits ClockRead
                [Get_local_time (Some t),
                 Serial_printf (vprintf P (\<lambda>k. []) current_time_format (time_args t))] s
            \<and> log_file (sync_block P e s) = log_file s
            \<and> wifi_connected (sync_block P e s) = wifi_connected s
            \<and> events_of Sync (sync_block P e s) = events_of Sync s)
         \<and> (mount e \<noteq> Mount_failed \<longrightarrow>
              events_of Sync (setup_wake P e (boot nv)) = []
              \<and> sync_attempts (setup_wake P e (boot nv)) = 0)
         \<and> (mount e \<noteq> Mount_failed \<and> open_append_ok e \<and> time_log e = Some t' \<longrightarrow>
              log_file (setup_wake P e (boot nv)) =
                Some (store_bytes (if mount e = Formatted then None else nv) @
                      line_text t' (astray_file e 0) (astray_file e 1) (astray_file e 2) @ [nl])
              \<and> events_of Append (setup_wake P e (boot nv)) =
                  [File_open_append True, Get_local_time (Some t'),
                   File_printf
                     (line_text t' (astray_file e 0) (astray_file e 1) (astray_file e 2) @ [nl]),
                   Serial_printf
                     (''Logged: '' @ fmt_02d (tm_hour t') @ '':'' @ fmt_02d (tm_min t') @ '':'' @
                      fmt_02d (tm_sec t') @ '', HR: '' @ astray_serial e 0 @ '', SpO2: '' @
                      astray_serial e 1 @ '', Temp: '' @ astray_serial e 2 @ [nl]),
                   File_close])
         \<and> (mount e \<noteq> Mount_failed \<and> open_append_ok e \<and> time_log e = Some t'
              \<and> store_bytes (if mount e = Formatted then None else nv) = file_of_lines ls
              \<and> (\<forall>l \<in> set ls. nl \<notin> set l)
              \<and> nl \<notin> set (astray_file e 0) \<and> nl \<notin> set (astray_file e 1)
              \<and> nl \<notin> set (astray_file e 2) \<longrightarrow>
              read_lines (store_bytes (log_file (setup_wake P e (boot nv)))) =
                ls @ [line_text t' (astray_file e 0) (astray_file e 1) (astray_file e 2)])"
proof (intro conjI impI)
  assume "\<not> isMorning s"
  then show "sync_block P e s =
              emits ClockRead
                [Get_local_time (Some t),
                 Serial_printf (vprintf P (\<lambda>k. []) current_time_format (time_args t))] s"
    using assms by (simp add: sync_block_closed)
  then show "log_file (sync_block P e s) = log_file s"
    and "wifi_connected (sync_block P e s) = wifi_connected s"
    and "events_of Sync (sync_block P e s) = events_of Sync s"
    by simp_all
next
  assume m: "mount e \<noteq> Mount_failed"
  then show "events_of Sync (setup_wake P e (boot nv)) = []"
    using assms by (simp add: setup_wake_mounted sync_block_closed)
  then show "sync_attempts (setup_wake P e (boot nv)) = 0"
    by (simp add: sync_attempts_def)
next
  assume h: "mount e \<noteq> Mount_failed \<and> open_append_ok e \<and> time_log e = Some t'"
  then have "log_file (setup_wake P e (boot nv)) =
           log_file (collectAndLogData P e
             ((boot nv)\<lparr>log_file := (if mount e = Formatted then None else nv)\<rparr>))"
    using assms wake_closed_gate_file by blast
  with h show "log_file (setup_wake P e (boot nv)) =
                Some (store_bytes (if mount e = Formatted then None else nv) @
                      line_text t' (astray_file e 0) (astray_file e 1) (astray_file e 2) @ [nl])"
    by (simp add: collectAndLogData_logged)
  from h show "events_of Append (setup_wake P e (boot nv)) =
                  [File_open_append True, Get_local_time (Some t'),
                   File_printf
                     (line_text t' (astray_file e 0) (astray_file e 1) (astray_file e 2) @ [nl]),
                   Serial_printf
                     (''Logged: '' @ fmt_02d (tm_hour t') @ '':'' @ fmt_02d (tm_min t') @ '':'' @
                      fmt_02d (tm_sec t') @ '', HR: '' @ astray_serial e 0 @ '', SpO2: '' @
                      astray_serial e 1 @ '', Temp: '' @ astray_serial e 2 @ [nl]),
                   File_close]"
    by (simp add: wake_append_events)
next
  assume h: "mount e \<noteq> Mount_failed \<and> open_append_ok e \<and> time_log e = Some t'
              \<and> store_bytes (if mount e = Formatted then None else nv) = file_of_lines ls
              \<and> (\<forall>l \<in> set ls. nl \<notin> set l)
              \<and> nl \<notin> set (astray_file e 0) \<and> nl \<notin> set (astray_file e 1)
              \<and> nl \<notin> set (astray_file e 2)"
  then have "log_file (setup_wake P e (boot nv)) =
           log_file (collectAndLogData P e
             ((boot nv)\<lparr>log_file := (if mount e = Formatted then None else nv)\<rparr>))"
    using assms wake_closed_gate_file by blast
  with h have "store_bytes (log_file (setup_wake P e (boot nv))) =
                 file_of_lines ls @
                 line_text t' (astray_file e 0) (astray_file e 1) (astray_file e 2) @ [nl]"
    by (simp add: collectAndLogData_logged)
  moreover have "nl \<notin> set (line_text t' (astray_file e 0) (astray_file e 1) (astray_file e 2))"
    using h by (simp add: line_text_no_nl)
  ultimately show "read_lines (store_bytes (log_file (setup_wake P e (boot nv)))) =
                ls @ [line_text t' (astray_file e 0) (astray_file e 1) (astray_file e 2)]"
    using h by (simp add: read_lines_appended)
qed

theorem closed_gate_sync_is_noop_witness:
  "time_gate night_env = Some t_0500 \<and> tm_hour t_0500 < MORNING_HOUR
   \<and> \<not> isMorning (boot one_line_store)
   \<and> log_file (sync_block bench_platform night_env (boot one_line_store)) = one_line_store
   \<and> mount night_env \<noteq> Mount_failed
   \<and> sync_attempts (setup_wake bench_platform night_env (boot one_line_store)) = 0
   \<and> open_append_ok night_env \<and> time_log night_env = Some t_0500
   \<and> log_file (setup_wake bench_platform night_env (boot one_line_store)) =
       Some (file_of_lines [''05:00:00,0.00,0.00,36.50'', ''05:00:00,36.50,36.50,0.00''])
   \<and> store_bytes (if mount night_env = Formatted then None else one_line_store) =
       file_of_lines [''05:00:00,0.00,0.00,36.50'']
   \<and> nl \<notin> set ''05:00:00,0.00,0.00,36.50''
   \<and> nl \<notin> set (astray_file night_env 0) \<and> nl \<notin> set (astray_file night_env 1)
   \<and> nl \<notin> set (astray_file night_env 2)
   \<and> read_lines (store_bytes (log_file (setup_wake bench_platform night_env
         (boot one_line_store)))) =
       [''05:00:00,0.00,0.00,36.50'', ''05:00:00,36.50,36.50,0.00'']"
proof -
  have g: "time_gate night_env = Some t_0500" and h: "tm_hour t_0500 < MORNING_HOUR"
    by (simp_all add: night_env_def t_0500_def MORNING_HOUR_def)
  have i: "\<not> isMorning (boot one_line_store)" by simp
  have m: "mount night_env \<noteq> Mount_failed"
    and o: "open_append_ok night_env \<and> time_log night_env = Some t_0500"
    by (simp_all add: night_env_def)
  have b: "store_bytes (if mount night_env = Formatted then None else one_line_store) =
             file_of_lines [''05:00:00,0.00,0.00,36.50'']"
    by (simp add: night_env_def one_line_store_def)
  have f: "\<forall>l \<in> set [''05:00:00,0.00,0.00,36.50'']. nl \<notin> set l"
    using nl_free_line by simp
  have a: "nl \<notin> set (astray_file night_env 0) \<and> nl \<notin> set (astray_file night_env 1)
           \<and> nl \<notin> set (astray_file night_env 2)"
    unfolding night_astray by (simp_all add: nl_def)
  note T = closed_gate_sync_is_noop
             [OF g h, where s = "boot one_line_store" and P = bench_platform
                and nv = one_line_store and t' = t_0500
                and ls = "[''05:00:00,0.00,0.00,36.50'']"]
  have c1: "log_file (sync_block bench_platform night_env (boot one_line_store)) = one_line_store"
    using T i by simp
  have c2: "sync_attempts (setup_wake bench_platform night_env (boot one_line_store)) = 0"
    using T m by blast
  have c3: "log_file (setup_wake bench_platform night_env (boot one_line_store)) =
             Some (store_bytes (if mount night_env = Formatted then None else one_line_store) @
                   line_text t_0500 (astray_file night_env 0) (astray_file night_env 1)
                     (astray_file night_env 2) @ [nl])"
    using T m o by blast
  have c4: "read_lines (store_bytes (log_file (setup_wake bench_platform night_env
             (boot one_line_store)))) =
           [''05:00:00,0.00,0.00,36.50''] @
           [line_text t_0500 (astray_file night_env 0) (astray_file night_env 1)
              (astray_file night_env 2)]"
    using T m o b f a by blast
  have c3b: "log_file (setup_wake bench_platform night_env (boot one_line_store)) =
       Some (file_of_lines [''05:00:00,0.00,0.00,36.50'', ''05:00:00,36.50,36.50,0.00''])"
    using c3 unfolding night_astray night_line b by (simp add: file_of_lines_def)
  have c4b: "read_lines (store_bytes (log_file (setup_wake bench_platform night_env
             (boot one_line_store)))) =
           [''05:00:00,0.00,0.00,36.50'', ''05:00:00,36.50,36.50,0.00'']"
    using c4 unfolding night_astray night_line by simp
  show ?thesis
    using g h i c1 m c2 o c3b b nl_free_line a c4b by blast
qed

text \<open>
  Without the proviso the append fails: with the gate closed, a boot whose log file does
  not open for appending, and a boot whose clock read for the time stamp fails, both
  leave a store of one record as it was.
\<close>

theorem closed_gate_boot_may_append_nothing:
  "time_gate (night_env\<lparr>open_append_ok := False\<rparr>) = Some t_0500
   \<and> time_gate (night_env\<lparr>time_log := None\<rparr>) = Some t_0500
   \<and> tm_hour t_0500 < MORNING_HOUR
   \<and> mount night_env = Mounted
   \<and> log_file (setup_wake bench_platform (night_env\<lparr>open_append_ok := False\<rparr>)
         (boot one_line_store)) = one_line_store
   \<and> log_file (setup_wake bench_platform (night_env\<lparr>time_log := None\<rparr>)
         (boot one_line_store)) = one_line_store"
proof -
  have g: "time_gate (night_env\<lparr>open_append_ok := False\<rparr>) = Some t_0500"
      "time_gate (night_env\<lparr>time_log := None\<rparr>) = Some t_0500"
      "tm_hour t_0500 < MORNING_HOUR" "mount night_env = Mounted"
    by (simp_all add: night_env_def t_0500_def MORNING_HOUR_def)
  have "log_file (setup_wake bench_platform (night_env\<lparr>open_append_ok := False\<rparr>)
         (boot one_line_store)) = one_line_store"
    using g by (simp add: wake_closed_gate_file collectAndLogData_def Let_def night_env_def)
  moreover
  have "log_file (setup_wake bench_platform (night_env\<lparr>time_log := None\<rparr>)
         (boot one_line_store)) = one_line_store"
    using g by (simp add: wake_closed_gate_file collectAndLogData_def Let_def night_env_def
                  one_line_store_def)
  ultimately show ?thesis using g by simp
qed

subsection \<open>C7: the order of a boot\<close>

text \<open>
  C7, for the boots whose mount succeeds (a boot whose mount fails runs none of the
  steps and does not sleep). In such a boot the actions come in the order of the steps:
  set-up, clock bootstrap, clock read, upload, acquisition, append, posture check, sleep.
  The bootstrap step connects and, when connected, sets the clock and disconnects; the
  clock is read at the gate; the upload step connects exactly when that clock read gives
  an hour from \<open>MORNING_HOUR\<close> on; the sensors are sampled; the log file is opened for
  appending; the acceleration is read and the motor pulsed when the tilt exceeds the
  threshold. The last three actions are the message of \<open>prepareForDeepSleep\<close>, the
  arming of the timer with \<open>SLEEP_INTERVAL\<close> = 20 000 000 microseconds and the entry
  into deep sleep, which is the last action of all.
\<close>

theorem mounted_boot_runs_in_order:
  assumes "mount e \<noteq> Mount_failed"
  shows "sorted (step_ranks (setup_wake P e (boot nv)))
         \<and> events_of Bootstrap (setup_wake P e (boot nv)) =
             WiFi_mode_STA # WiFi_autoConnect (wifi_boot e) #
             (if wifi_boot e
              then [Serial_println ''WiFi connected'', Config_time, Get_local_time (time_ntp e),
                    (case time_ntp e of
                       None \<Rightarrow> Serial_println ''Failed to sync time with NTP''
                     | Some tn \<Rightarrow> Serial_println_time tn),
                    WiFi_disconnect]
              else [Serial_println ''WiFi connection failed'',
                    Serial_println ''WiFi initialization failed''])
         \<and> take 1 (events_of ClockRead (setup_wake P e (boot nv))) =
             [Get_local_time (time_gate e)]
         \<and> sync_attempts (setup_wake P e (boot nv)) =
             (case time_gate e of
                None \<Rightarrow> 0
              | Some t \<Rightarrow> if MORNING_HOUR \<le> tm_hour t then 1 else 0)
         \<and> events_of Acquire (setup_wake P e (boot nv)) =
             [Sample_optical BUFFER_SIZE, Estimate, Read_temperature]
         \<and> take 1 (events_of Append (setup_wake P e (boot nv))) =
             [File_open_append (open_append_ok e)]
         \<and> events_of Posture (setup_wake P e (boot nv)) =
             Get_acceleration #
             (if 15000 < \<bar>sint (accel_x e)\<bar> \<or> 15000 < \<bar>sint (accel_y e)\<bar>
              then [Digital_write VIBRATION_MOTOR_PIN True, Delay 500,
                    Digital_write VIBRATION_MOTOR_PIN False]
              else [])
         \<and> events_of Sleep (setup_wake P e (boot nv)) =
             [Serial_println ''Entering deep sleep...'', Timer_wakeup SLEEP_INTERVAL,
              Deep_sleep_start]
         \<and> (\<exists>before. trace (setup_wake P e (boot nv)) =
               before @ [(Sleep, Serial_println ''Entering deep sleep...''),
                         (Sleep, Timer_wakeup SLEEP_INTERVAL), (Sleep, Deep_sleep_start)])
         \<and> last (trace (setup_wake P e (boot nv))) = (Sleep, Deep_sleep_start)
         \<and> SLEEP_INTERVAL = 20000000
         \<and> asleep (setup_wake P e (boot nv))"
proof (intro conjI)
  show "sorted (step_ranks (setup_wake P e (boot nv)))"
    using ordered_setup_wake [OF assms] by (simp add: ordered_upto_def)
  show "events_of Bootstrap (setup_wake P e (boot nv)) =
             WiFi_mode_STA # WiFi_autoConnect (wifi_boot e) #
             (if wifi_boot e
              then [Serial_println ''WiFi connected'', Config_time, Get_local_time (time_ntp e),
                    (case time_ntp e of
                       None \<Rightarrow> Serial_println ''Failed to sync time with NTP''
                     | Some tn \<Rightarrow> Serial_println_time tn),
                    WiFi_disconnect]
              else [Serial_println ''WiFi connection failed'',
                    Serial_println ''WiFi initialization failed''])"
    by (rule wake_bootstrap_events [OF assms])
  show "take 1 (events_of ClockRead (setup_wake P e (boot nv))) =
             [Get_local_time (time_gate e)]"
    by (rule wake_clock_read [OF assms])
  show "sync_attempts (setup_wake P e (boot nv)) =
             (case time_gate e of
                None \<Rightarrow> 0
              | Some t \<Rightarrow> if MORNING_HOUR \<le> tm_hour t then 1 else 0)"
    by (rule wake_sync_attempts [OF assms])
  show "events_of Acquire (setup_wake P e (boot nv)) =
             [Sample_optical BUFFER_SIZE, Estimate, Read_temperature]"
    using assms by (simp add: setup_wake_mounted collectAndLogData_def Let_def split: option.splits)
  show "take 1 (events_of Append (setup_wake P e (boot nv))) =
             [File_open_append (open_append_ok e)]"
    by (rule wake_append_open [OF assms])
  show "events_of Posture (setup_wake P e (boot nv)) =
             Get_acceleration #
             (if 15000 < \<bar>sint (accel_x e)\<bar> \<or> 15000 < \<bar>sint (accel_y e)\<bar>
              then [Digital_write VIBRATION_MOTOR_PIN True, Delay 500,
                    Digital_write VIBRATION_MOTOR_PIN False]
              else [])"
    by (rule wake_posture_events [OF assms])
  show "events_of Sleep (setup_wake P e (boot nv)) =
             [Serial_println ''Entering deep sleep...'', Timer_wakeup SLEEP_INTERVAL,
              Deep_sleep_start]"
    using assms by (simp add: setup_wake_mounted)
  show "\<exists>before. trace (setup_wake P e (boot nv)) =
               before @ [(Sleep, Serial_println ''Entering deep sleep...''),
                         (Sleep, Timer_wakeup SLEEP_INTERVAL), (Sleep, Deep_sleep_start)]"
    using assms by (simp add: setup_wake_mounted trace_prepareForDeepSleep)
  show "last (trace (setup_wake P e (boot nv))) = (Sleep, Deep_sleep_start)"
    using assms by (simp add: setup_wake_mounted trace_prepareForDeepSleep)
  show "SLEEP_INTERVAL = 20000000" by (simp add: SLEEP_INTERVAL_def)
  show "asleep (setup_wake P e (boot nv))"
    using assms by (simp add: setup_wake_mounted)
qed

theorem mounted_boot_runs_in_order_witness:
  "mount (night_env\<lparr>accel_y := - 16000\<rparr>) \<noteq> Mount_failed
   \<and> sorted (step_ranks (setup_wake bench_platform (night_env\<lparr>accel_y := - 16000\<rparr>)
        (boot one_line_store)))
   \<and> events_of Acquire (setup_wake bench_platform (night_env\<lparr>accel_y := - 16000\<rparr>)
        (boot one_line_store)) = [Sample_optical BUFFER_SIZE, Estimate, Read_temperature]
   \<and> events_of Posture (setup_wake bench_platform (night_env\<lparr>accel_y := - 16000\<rparr>)
        (boot one_line_store)) =
       [Get_acceleration, Digital_write VIBRATION_MOTOR_PIN True, Delay 500,
        Digital_write VIBRATION_MOTOR_PIN False]
   \<and> events_of Sleep (setup_wake bench_platform (night_env\<lparr>accel_y := - 16000\<rparr>)
        (boot one_line_store)) =
       [Serial_println ''Entering deep sleep...'', Timer_wakeup SLEEP_INTERVAL, Deep_sleep_start]
   \<and> last (trace (setup_wake bench_platform (night_env\<lparr>accel_y := - 16000\<rparr>)
        (boot one_line_store))) = (Sleep, Deep_sleep_start)
   \<and> asleep (setup_wake bench_platform (night_env\<lparr>accel_y := - 16000\<rparr>) (boot one_line_store))"
proof -
  have m: "mount (night_env\<lparr>accel_y := - 16000\<rparr>) \<noteq> Mount_failed"
    by (simp add: night_env_def)
  note T = mounted_boot_runs_in_order [OF m, of bench_platform one_line_store]
  have p: "events_of Posture (setup_wake bench_platform (night_env\<lparr>accel_y := - 16000\<rparr>)
        (boot one_line_store)) =
       [Get_acceleration, Digital_write VIBRATION_MOTOR_PIN True, Delay 500,
        Digital_write VIBRATION_MOTOR_PIN False]"
    using T by simp
  show ?thesis
    using m p T by blast
qed

text \<open>
  The boot sequence as stated for every boot fails where the mount fails: that boot ends
  awake after its third action, with no acquisition and no sleep.
\<close>

theorem failed_mount_never_sleeps:
  "\<not> asleep (setup_wake bench_platform (night_env\<lparr>mount := Mount_failed\<rparr>) (boot one_line_store))
   \<and> events_of Sleep (setup_wake bench_platform (night_env\<lparr>mount := Mount_failed\<rparr>)
        (boot one_line_store)) = []
   \<and> events_of Acquire (setup_wake bench_platform (night_env\<lparr>mount := Mount_failed\<rparr>)
        (boot one_line_store)) = []
   \<and> last (trace (setup_wake bench_platform (night_env\<lparr>mount := Mount_failed\<rparr>)
        (boot one_line_store))) = (Init, Serial_println ''Failed to mount file system'')"
  by (simp add: setup_wake_def Let_def)

subsection \<open>C8: the posture threshold\<close>

text \<open>
  C8. \<open>correctPosture\<close> reads the acceleration and changes nothing but the trace. It
  compares \<open>abs(ax)\<close> and \<open>abs(ay)\<close> with 15000; exactly when one of them is larger it
  drives the motor pin high, waits 500 ms and drives it low again, once. A magnitude of
  16000 on the x axis gives the pulse whatever the other axes read; magnitudes of 10000
  on both compared axes give no action on the motor pin. The z axis is read and ignored.
\<close>

theorem posture_threshold:
  "correctPosture e s =
     emits Posture
       (Get_acceleration #
        (if 15000 < \<bar>sint (accel_x e)\<bar> \<or> 15000 < \<bar>sint (accel_y e)\<bar>
         then [Digital_write VIBRATION_MOTOR_PIN True, Delay 500,
               Digital_write VIBRATION_MOTOR_PIN False]
         else [])) s
   \<and> (\<bar>sint (accel_x e)\<bar> = 16000 \<longrightarrow>
        events_of Posture (correctPosture e s) =
          events_of Posture s @
            [Get_acceleration, Digital_write VIBRATION_MOTOR_PIN True, Delay 500,
             Digital_write VIBRATION_MOTOR_PIN False])
   \<and> (\<bar>sint (accel_x e)\<bar> = 10000 \<and> \<bar>sint (accel_y e)\<bar> = 10000 \<longrightarrow>
        events_of Posture (correctPosture e s) = events_of Posture s @ [Get_acceleration])"
  by (simp add: correctPosture_emits)

theorem posture_threshold_witness:
  "\<bar>sint (accel_x (night_env\<lparr>accel_x := 16000\<rparr>))\<bar> = 16000
   \<and> events_of Posture (correctPosture (night_env\<lparr>accel_x := 16000\<rparr>) (boot None)) =
       [Get_acceleration, Digital_write VIBRATION_MOTOR_PIN True, Delay 500,
        Digital_write VIBRATION_MOTOR_PIN False]
   \<and> \<bar>sint (accel_x (night_env\<lparr>accel_x := - 10000, accel_y := 10000\<rparr>))\<bar> = 10000
   \<and> \<bar>sint (accel_y (night_env\<lparr>accel_x := - 10000, accel_y := 10000\<rparr>))\<bar> = 10000
   \<and> events_of Posture
         (correctPosture (night_env\<lparr>accel_x := - 10000, accel_y := 10000\<rparr>) (boot None)) =
       [Get_acceleration]"
proof -
  have a: "\<bar>sint (accel_x (night_env\<lparr>accel_x := 16000\<rparr>))\<bar> = 16000" by simp
  have b: "\<bar>sint (accel_x (night_env\<lparr>accel_x := - 10000, accel_y := 10000\<rparr>))\<bar> = 10000"
    and c: "\<bar>sint (accel_y (night_env\<lparr>accel_x := - 10000, accel_y := 10000\<rparr>))\<bar> = 10000"
    by simp_all
  have "events_of Posture (correctPosture (night_env\<lparr>accel_x := 16000\<rparr>) (boot None)) =
          events_of Posture (boot None) @
            [Get_acceleration, Digital_write VIBRATION_MOTOR_PIN True, Delay 500,
             Digital_write VIBRATION_MOTOR_PIN False]"
    using a posture_threshold [of "night_env\<lparr>accel_x := 16000\<rparr>" "boot None"] by blast
  moreover
  have "events_of Posture
          (correctPosture (night_env\<lparr>accel_x := - 10000, accel_y := 10000\<rparr>) (boot None)) =
        events_of Posture (boot None) @ [Get_acceleration]"
    using b c
      posture_threshold [of "night_env\<lparr>accel_x := - 10000, accel_y := 10000\<rparr>" "boot None"]
    by blast
  ultimately show ?thesis using a b c by simp
qed

subsection \<open>C9: what the logged record holds of the estimates\<close>

text \<open>
  C9. The validity flags are never read, but the estimates do not reach the record
  either: they are passed to \<open>%.2f\<close> as \<open>int32_t\<close> (the defect of C3). In the example
  boot an estimator that returns heart rate 250 and SpO2 1, both flagged invalid, leaves
  the line \<open>05:00:00,36.50,36.50,0.00\<close> in the file, the same line as for 72 and 98
  flagged valid: the record holds neither estimate.
\<close>

theorem logged_record_misses_estimates:
  "heartRate (maxim (bench_platform\<lparr>maxim := \<lambda>ir n red.
        \<lparr>spo2 = 1, validSpO2 = 0, heartRate = 250, validHeartRate = 0\<rparr>\<rparr>)
        (map (ir_sample night_env) [0..<BUFFER_SIZE]) BUFFER_SIZE
        (map (red_sample night_env) [0..<BUFFER_SIZE])) = 250
   \<and> spo2 (maxim (bench_platform\<lparr>maxim := \<lambda>ir n red.
        \<lparr>spo2 = 1, validSpO2 = 0, heartRate = 250, validHeartRate = 0\<rparr>\<rparr>)
        (map (ir_sample night_env) [0..<BUFFER_SIZE]) BUFFER_SIZE
        (map (red_sample night_env) [0..<BUFFER_SIZE])) = 1
   \<and> read_lines (store_bytes (log_file
        (collectAndLogData
           (bench_platform\<lparr>maxim := \<lambda>ir n red.
              \<lparr>spo2 = 1, validSpO2 = 0, heartRate = 250, validHeartRate = 0\<rparr>\<rparr>)
           night_env (boot None)))) =
       [''05:00:00,36.50,36.50,0.00'']"
proof -
  let ?P = "bench_platform\<lparr>maxim := \<lambda>ir n red.
              \<lparr>spo2 = 1, validSpO2 = 0, heartRate = 250, validHeartRate = 0\<rparr>\<rparr>"
  have o: "open_append_ok night_env" and t: "time_log night_env = Some t_0500"
    by (simp_all add: night_env_def)
  have "log_file (collectAndLogData ?P night_env (boot None)) =
          Some (''05:00:00,36.50,36.50,0.00'' @ [nl])"
    using collectAndLogData_logged [OF o t, of ?P "boot None"]
    unfolding night_astray night_line by simp
  moreover have "nl \<notin> set ''05:00:00,36.50,36.50,0.00''" by (simp add: nl_def)
  ultimately have "read_lines (store_bytes (log_file
        (collectAndLogData ?P night_env (boot None)))) =
       [''05:00:00,36.50,36.50,0.00'']"
    using read_lines_appended [of "[]" "''05:00:00,36.50,36.50,0.00''"]
    by (simp add: file_of_lines_def)
  then show ?thesis by simp
qed

subsection \<open>C10: a failed clock read drops the record\<close>

text \<open>
  C10. Take a boot whose mount did not fail and whose clock read in \<open>collectAndLogData\<close>
  (line 181) fails. The bytes of the log file after \<open>collectAndLogData\<close> are the bytes
  before it, from whatever state it starts: when the file opens it is opened and closed
  with nothing written in between, and no message is printed. The posture check and
  \<open>prepareForDeepSleep\<close> run as in any other boot: the acceleration is read and the
  motor pulsed once exactly when the tilt exceeds the threshold, the timer is armed and
  the chip enters deep sleep as its last action.
\<close>

theorem clock_failure_drops_record:
  assumes "mount e \<noteq> Mount_failed" and "time_log e = None"
  shows "store_bytes (log_file (collectAndLogData P e s)) = store_bytes (log_file s)
         \<and> events_of Append (setup_wake P e (boot nv)) =
             (if open_append_ok e
              then [File_open_append True, Get_local_time None, File_close]
              else [File_open_append False,
                    Serial_println ''Failed to open log file for writing''])
         \<and> events_of Posture (setup_wake P e (boot nv)) =
             Get_acceleration #
             (if 15000 < \<bar>sint (accel_x e)\<bar> \<or> 15000 < \<bar>sint (accel_y e)\<bar>
              then [Digital_write VIBRATION_MOTOR_PIN True, Delay 500,
                    Digital_write VIBRATION_MOTOR_PIN False]
              else [])
         \<and> events_of Sleep (setup_wake P e (boot nv)) =
             [Serial_println ''Entering deep sleep...'', Timer_wakeup SLEEP_INTERVAL,
              Deep_sleep_start]
         \<and> last (trace (setup_wake P e (boot nv))) = (Sleep, Deep_sleep_start)
         \<and> asleep (setup_wake P e (boot nv))"
proof (intro conjI)
  show "store_bytes (log_file (collectAndLogData P e s)) = store_bytes (log_file s)"
    using assms(2) by (simp add: collectAndLogData_def Let_def)
  show "events_of Append (setup_wake P e (boot nv)) =
             (if open_append_ok e
              then [File_open_append True, Get_local_time None, File_close]
              else [File_open_append False,
                    Serial_println ''Failed to open log file for writing''])"
    using assms by (simp add: setup_wake_mounted collectAndLogData_def Let_def)
  show "events_of Posture (setup_wake P e (boot nv)) =
             Get_acceleration #
             (if 15000 < \<bar>sint (accel_x e)\<bar> \<or> 15000 < \<bar>sint (accel_y e)\<bar>
              then [Digital_write VIBRATION_MOTOR_PIN True, Delay 500,
                    Digital_write VIBRATION_MOTOR_PIN False]
              else [])"
    by (rule wake_posture_events [OF assms(1)])
  show "events_of Sleep (setup_wake P e (boot nv)) =
             [Serial_println ''Entering deep sleep...'', Timer_wakeup SLEEP_INTERVAL,
              Deep_sleep_start]"
    using assms(1) by (simp add: setup_wake_mounted)
  show "last (trace (setup_wake P e (boot nv))) = (Sleep, Deep_sleep_start)"
    using assms(1) by (simp add: setup_wake_mounted trace_prepareForDeepSleep)
  show "asleep (setup_wake P e (boot nv))"
    using assms(1) by (simp add: setup_wake_mounted)
qed

theorem clock_failure_drops_record_witness:
  "mount (night_env\<lparr>time_log := None, accel_x := 16000\<rparr>) \<noteq> Mount_failed
   \<and> time_log (night_env\<lparr>time_log := None, accel_x := 16000\<rparr>) = None
   \<and> store_bytes (log_file (collectAndLogData bench_platform
         (night_env\<lparr>time_log := None, accel_x := 16000\<rparr>) (boot one_line_store))) =
       store_bytes (log_file (boot one_line_store))
   \<and> events_of Append (setup_wake bench_platform
         (night_env\<lparr>time_log := None, accel_x := 16000\<rparr>) (boot one_line_store)) =
       [File_open_append True, Get_local_time None, File_close]
   \<and> events_of Posture (setup_wake bench_platform
         (night_env\<lparr>time_log := None, accel_x := 16000\<rparr>) (boot one_line_store)) =
       [Get_acceleration, Digital_write VIBRATION_MOTOR_PIN True, Delay 500,
        Digital_write VIBRATION_MOTOR_PIN False]
   \<and> events_of Sleep (setup_wake bench_platform
         (night_env\<lparr>time_log := None, accel_x := 16000\<rparr>) (boot one_line_store)) =
       [Serial_println ''Entering deep sleep...'', Timer_wakeup SLEEP_INTERVAL, Deep_sleep_start]
   \<and> asleep (setup_wake bench_platform
         (night_env\<lparr>time_log := None, accel_x := 16000\<rparr>) (boot one_line_store))"
proof -
  have m: "mount (night_env\<lparr>time_log := None, accel_x := 16000\<rparr>) \<noteq> Mount_failed"
    and o: "open_append_ok (night_env\<lparr>time_log := None, accel_x := 16000\<rparr>)"
    by (simp_all add: night_env_def)
  have t: "time_log (night_env\<lparr>time_log := None, accel_x := 16000\<rparr>) = None" by simp
  note T = clock_failure_drops_record
             [OF m t, of bench_platform "boot one_line_store" one_line_store]
  have a: "events_of Append (setup_wake bench_platform
         (night_env\<lparr>time_log := None, accel_x := 16000\<rparr>) (boot one_line_store)) =
       [File_open_append True, Get_local_time None, File_close]"
    using T o by simp
  have p: "events_of Posture (setup_wake bench_platform
         (night_env\<lparr>time_log := None, accel_x := 16000\<rparr>) (boot one_line_store)) =
       [Get_acceleration, Digital_write VIBRATION_MOTOR_PIN True, Delay 500,
        Digital_write VIBRATION_MOTOR_PIN False]"
    using T by simp
  show ?thesis
    using m t a p T by blast
qed

end
